theory Spec2Isabelle
  imports Main
begin

section \<open>JavaScript values as the program meets them\<close>

text \<open>
  The page script \<^verbatim>\<open>assets/js/app.js\<close> keeps two globals (\<^verbatim>\<open>appData\<close>, \<^verbatim>\<open>currentLang\<close>),
  fetches one JSON document per locale and writes it into fixed places of the document.
  The data is whatever \<^verbatim>\<open>response.json()\<close> returns, so it is modelled untyped: a JSON value,
  with \<^verbatim>\<open>undefined\<close> added for reads of absent properties and the built-in objects of the
  runtime added for reads that reach a prototype.

  Conventions of the model:
  \<^item> strings are byte lists; the script's Chinese literals are their UTF-8 bytes. The
    script only concatenates strings, compares them with ASCII literals, tests them for
    emptiness and replaces the first occurrence of an ASCII pattern, which reads the same
    on bytes as on UTF-16 code units;
  \<^item> a number is held as the text \<^verbatim>\<open>ToString\<close> gives for it (\<^verbatim>\<open>12\<close>, \<^verbatim>\<open>0.5\<close>, \<^verbatim>\<open>1e+21\<close>): the
    script does no arithmetic on data, it only prints numbers and tests them for
    truthiness, and the only falsy numbers of JSON, \<^verbatim>\<open>0\<close> and \<^verbatim>\<open>-0\<close>, both print as \<^verbatim>\<open>0\<close>;
  \<^item> a built-in function or object of the runtime is held as the text \<^verbatim>\<open>ToString\<close> gives
    for it;
  \<^item> a parsed object is the list of its own members, each key once (a read finds the
    first entry of a key);
  \<^item> a property read finds the own members of a parsed JSON object in the object, and
    the elements and the \<^verbatim>\<open>length\<close> of a parsed array in the array. Every other member is the
    runtime's: the members inherited from the built-in prototypes, and the members of
    strings, numbers and booleans. The runtime is a parameter \<open>rt\<close> of the model: \<open>rt v k\<close>
    is the member the runtime finds in \<open>v\<close> under the key \<open>k\<close>, if any;
  \<^item> an \<^verbatim>\<open>async\<close> function runs to completion in one step: the interleaving of other event
    handlers at an \<^verbatim>\<open>await\<close> is outside the model.
\<close>

datatype jsval =
    JUndefined
  | JNull
  | JBool bool
  | JNum string
  | JStr string
  | JArr "jsval list"
  | JObj "(string \<times> jsval) list"
  | JNative string

datatype js_error =
    TypeError
  | SyntaxError
  | NetworkError
  | Error string

type_synonym 'a result = "js_error + 'a"

type_synonym runtime = "jsval \<Rightarrow> string \<Rightarrow> jsval option"

definition bindE :: "'a result \<Rightarrow> ('a \<Rightarrow> 'b result) \<Rightarrow> 'b result" where
  "bindE r f = (case r of Inl e \<Rightarrow> Inl e | Inr v \<Rightarrow> f v)"

text \<open>The decimal numeral of a natural number, as an array index is written as a key.\<close>

fun decimal :: "nat \<Rightarrow> string" where
  "decimal n =
     (if n < 10 then [''0123456789'' ! n]
      else decimal (n div 10) @ [''0123456789'' ! (n mod 10)])"

declare decimal.simps [simp del]

text \<open>The own members of an array: its \<^verbatim>\<open>length\<close> and, under the numerals below it, its
  elements.\<close>

definition arrayMember :: "jsval list \<Rightarrow> string \<Rightarrow> jsval option" where
  "arrayMember xs k =
     (if k = ''length'' then Some (JNum (decimal (length xs)))
      else map_of (zip (map decimal [0..<length xs]) xs) k)"

text \<open>\<^verbatim>\<open>v.k\<close> and \<^verbatim>\<open>v[k]\<close>: a TypeError on \<^verbatim>\<open>null\<close> and \<^verbatim>\<open>undefined\<close>; the own member of a
  parsed object or array; failing that the member the runtime finds; \<^verbatim>\<open>undefined\<close> when
  there is none.\<close>

definition runtimeMember :: "runtime \<Rightarrow> jsval \<Rightarrow> string \<Rightarrow> jsval" where
  "runtimeMember rt v k = (case rt v k of Some w \<Rightarrow> w | None \<Rightarrow> JUndefined)"

fun getProp :: "runtime \<Rightarrow> jsval \<Rightarrow> string \<Rightarrow> jsval result" where
  "getProp rt JUndefined k = Inl TypeError"
| "getProp rt JNull k = Inl TypeError"
| "getProp rt (JObj kvs) k =
     Inr (case map_of kvs k of Some v \<Rightarrow> v | None \<Rightarrow> runtimeMember rt (JObj kvs) k)"
| "getProp rt (JArr xs) k =
     Inr (case arrayMember xs k of Some v \<Rightarrow> v | None \<Rightarrow> runtimeMember rt (JArr xs) k)"
| "getProp rt v k = Inr (runtimeMember rt v k)"

fun getPath :: "runtime \<Rightarrow> jsval \<Rightarrow> string list \<Rightarrow> jsval result" where
  "getPath rt v [] = Inr v"
| "getPath rt v (k # ks) = bindE (getProp rt v k) (\<lambda>w. getPath rt w ks)"

text \<open>Truthiness, as the conditional operator and \<^verbatim>\<open>if\<close> test it.\<close>

fun truthy :: "jsval \<Rightarrow> bool" where
  "truthy JUndefined = False"
| "truthy JNull = False"
| "truthy (JBool b) = b"
| "truthy (JNum t) = (t \<noteq> ''0'')"
| "truthy (JStr s) = (s \<noteq> [])"
| "truthy (JArr xs) = True"
| "truthy (JObj kvs) = True"
| "truthy (JNative t) = True"

fun joinWith :: "string \<Rightarrow> string list \<Rightarrow> string" where
  "joinWith sep [] = []"
| "joinWith sep [x] = x"
| "joinWith sep (x # y # ys) = x @ sep @ joinWith sep (y # ys)"

text \<open>The string a value becomes inside a template literal (\<^verbatim>\<open>ToString\<close>). An array joins
  its elements with commas, \<^verbatim>\<open>null\<close> and \<^verbatim>\<open>undefined\<close> elements as empty strings. A parsed
  object prints as \<^verbatim>\<open>[object Object]\<close> through the inherited \<^verbatim>\<open>toString\<close>; when it has an own
  member \<^verbatim>\<open>toString\<close>, which is data and not callable, the conversion falls to
  \<^verbatim>\<open>valueOf\<close>, which is not callable either or returns the object, and throws a TypeError.\<close>

fun toString :: "jsval \<Rightarrow> string result"
  and toStrings :: "jsval list \<Rightarrow> string list result" where
  "toString JUndefined = Inr ''undefined''"
| "toString JNull = Inr ''null''"
| "toString (JBool b) = Inr (if b then ''true'' else ''false'')"
| "toString (JNum t) = Inr t"
| "toString (JStr s) = Inr s"
| "toString (JArr xs) =
     (case toStrings xs of Inl e \<Rightarrow> Inl e | Inr ts \<Rightarrow> Inr (joinWith '','' ts))"
| "toString (JObj kvs) =
     (if map_of kvs ''toString'' = None then Inr ''[object Object]'' else Inl TypeError)"
| "toString (JNative t) = Inr t"
| "toStrings [] = Inr []"
| "toStrings (x # xs) =
     (case (if x = JUndefined \<or> x = JNull then Inr [] else toString x) of
        Inl e \<Rightarrow> Inl e
      | Inr t \<Rightarrow> (case toStrings xs of Inl e \<Rightarrow> Inl e | Inr ts \<Rightarrow> Inr (t # ts)))"

text \<open>Assigning to \<^verbatim>\<open>textContent\<close>: the attribute is a nullable string, so \<^verbatim>\<open>null\<close> and
  \<^verbatim>\<open>undefined\<close> clear the element.\<close>

definition textOf :: "jsval \<Rightarrow> string result" where
  "textOf v = (if v = JUndefined \<or> v = JNull then Inr [] else toString v)"

section \<open>The document and the script's state\<close>

text \<open>
  The markup is not part of the script; the script reaches it through identifiers and
  selectors. The model keeps what the script reads of it (which elements exist, the
  attributes of the navigation links, the sections' offsets) apart from what it writes:
  one store of written properties, indexed by element and property. The elements the
  selectors reach are taken to be distinct and not nested in one another.
\<close>

datatype node =
    ById string
  | NavLink nat
  | HeroBtn nat
  | ContactTitle nat
  | SubsectionTitle

datatype property = TextContent | InnerHTML | Src | Href

record navlink =
  dataNav :: "string option"
  href :: "string option"

record pageSection =
  offsetTop :: int
  sectionId :: "string option"

record page =
  ids :: "string list"
  navLinks :: "navlink list"
  heroBtns :: nat
  contactTitles :: nat
  hasSubsectionTitle :: bool
  hasLangText :: bool
  sections :: "pageSection list"

fun present :: "page \<Rightarrow> node \<Rightarrow> bool" where
  "present p (ById i) = (i \<in> set (ids p))"
| "present p (NavLink i) = (i < length (navLinks p))"
| "present p (HeroBtn i) = (i < heroBtns p)"
| "present p (ContactTitle i) = (i < contactTitles p)"
| "present p SubsectionTitle = hasSubsectionTitle p"

datatype timer = AnimateProgressBars

record state =
  appData :: jsval
  currentLang :: string
  docLang :: string
  doc :: page
  content :: "node \<times> property \<Rightarrow> string"
  navActive :: "nat \<Rightarrow> bool"
  scrollY :: int
  toggleDisabled :: bool
  toggleOpacity :: string
  toggleText :: string
  alerts :: "string list"
  consoleErrors :: "(string \<times> js_error) list"
  timers :: "timer list"

type_synonym stmt = "state \<Rightarrow> js_error option \<times> state"

section \<open>Statements and expressions\<close>

text \<open>A statement runs on the state and either completes or throws; what it wrote before
  throwing stays written. A block runs its statements in order up to the first throw.\<close>

fun seq :: "stmt list \<Rightarrow> stmt" where
  "seq [] s = (None, s)"
| "seq (c # cs) s = (case c s of (None, s') \<Rightarrow> seq cs s' | (Some e, s') \<Rightarrow> (Some e, s'))"

definition evalThen :: "'a result \<Rightarrow> ('a \<Rightarrow> stmt) \<Rightarrow> stmt" where
  "evalThen r k s = (case r of Inl e \<Rightarrow> (Some e, s) | Inr v \<Rightarrow> k v s)"

text \<open>\<^verbatim>\<open>element.property = value\<close>: a TypeError when the element lookup gave \<^verbatim>\<open>null\<close> (or
  the indexed list is too short), the error of the right-hand side when it throws.\<close>

definition setProp :: "node \<Rightarrow> property \<Rightarrow> string result \<Rightarrow> stmt" where
  "setProp n p e s =
     (if \<not> present (doc s) n then (Some TypeError, s)
      else case e of
             Inl x \<Rightarrow> (Some x, s)
           | Inr v \<Rightarrow> (None, s\<lparr>content := (content s)((n, p) := v)\<rparr>))"

definition setTextContent :: "node \<Rightarrow> jsval result \<Rightarrow> stmt" where
  "setTextContent n e = setProp n TextContent (bindE e textOf)"

definition setAttr :: "node \<Rightarrow> property \<Rightarrow> jsval result \<Rightarrow> stmt" where
  "setAttr n p e = setProp n p (bindE e toString)"

definition setInnerHTML :: "node \<Rightarrow> string result \<Rightarrow> stmt" where
  "setInnerHTML n e = setProp n InnerHTML e"

definition setTimeout :: "timer \<Rightarrow> stmt" where
  "setTimeout t s = (None, s\<lparr>timers := timers s @ [t]\<rparr>)"

fun mapE :: "('a \<Rightarrow> 'b result) \<Rightarrow> 'a list \<Rightarrow> 'b list result" where
  "mapE f [] = Inr []"
| "mapE f (x # xs) = bindE (f x) (\<lambda>y. bindE (mapE f xs) (\<lambda>ys. Inr (y # ys)))"

text \<open>\<^verbatim>\<open>v.map(f).join('')\<close>: a TypeError unless \<^verbatim>\<open>v\<close> is an array. Nothing else parsed from
  JSON has a callable \<^verbatim>\<open>map\<close>, and the names under which the script reads the receiver
  (\<^verbatim>\<open>tags\<close>, \<^verbatim>\<open>skills\<close>, \<^verbatim>\<open>technologies\<close>, \<^verbatim>\<open>projects\<close>, \<^verbatim>\<open>responsibilities\<close>, \<^verbatim>\<open>education\<close>,
  \<^verbatim>\<open>campus\<close>) are no members of a built-in prototype.\<close>

definition mapJoin :: "(jsval \<Rightarrow> string result) \<Rightarrow> jsval \<Rightarrow> string result" where
  "mapJoin f v =
     (case v of JArr xs \<Rightarrow> bindE (mapE f xs) (\<lambda>ys. Inr (concat ys)) | _ \<Rightarrow> Inl TypeError)"

text \<open>A template literal: its literal parts and its substitutions, left to right.\<close>

definition lit :: "string \<Rightarrow> string result" where
  "lit t = Inr t"

definition sub :: "jsval result \<Rightarrow> string result" where
  "sub e = bindE e toString"

definition template :: "string result list \<Rightarrow> string result" where
  "template parts = bindE (mapE (\<lambda>r. r) parts) (\<lambda>ys. Inr (concat ys))"

text \<open>\<^verbatim>\<open>v.replace(pat, rep)\<close> with string arguments replaces the first occurrence; a
  TypeError unless \<^verbatim>\<open>v\<close> is a string (the receiver is read under \<^verbatim>\<open>website\<close>, no member of
  a built-in prototype).\<close>

fun replaceFirst :: "string \<Rightarrow> string \<Rightarrow> string \<Rightarrow> string" where
  "replaceFirst pat rep [] = (if pat = [] then rep else [])"
| "replaceFirst pat rep (c # cs) =
     (if take (length pat) (c # cs) = pat then rep @ drop (length pat) (c # cs)
      else c # replaceFirst pat rep cs)"

definition stringReplace :: "string \<Rightarrow> string \<Rightarrow> jsval \<Rightarrow> jsval result" where
  "stringReplace pat rep v =
     (case v of JStr t \<Rightarrow> Inr (JStr (replaceFirst pat rep t)) | _ \<Rightarrow> Inl TypeError)"

section \<open>The literals of the Chinese locale\<close>

text \<open>Each is the UTF-8 encoding of the literal in the script; the code points are given
  beside it.\<close>

definition zhViewProjects :: string where \<comment> \<open>U+67E5 U+770B U+9879 U+76EE\<close>
  "zhViewProjects =
     [CHR 0xE6, CHR 0x9F, CHR 0xA5, CHR 0xE7, CHR 0x9C, CHR 0x8B,
      CHR 0xE9, CHR 0xA1, CHR 0xB9, CHR 0xE7, CHR 0x9B, CHR 0xAE]"

definition zhContactMe :: string where \<comment> \<open>U+8054 U+7CFB U+6211\<close>
  "zhContactMe =
     [CHR 0xE8, CHR 0x81, CHR 0x94, CHR 0xE7, CHR 0xB3, CHR 0xBB,
      CHR 0xE6, CHR 0x88, CHR 0x91]"

definition zhResponsibilities :: string where \<comment> \<open>U+804C U+8D23 U+FF1A\<close>
  "zhResponsibilities =
     [CHR 0xE8, CHR 0x81, CHR 0x8C, CHR 0xE8, CHR 0xB4, CHR 0xA3,
      CHR 0xEF, CHR 0xBC, CHR 0x9A]"

definition zhAchievements :: string where \<comment> \<open>U+6210 U+679C U+FF1A\<close>
  "zhAchievements =
     [CHR 0xE6, CHR 0x88, CHR 0x90, CHR 0xE6, CHR 0x9E, CHR 0x9C,
      CHR 0xEF, CHR 0xBC, CHR 0x9A]"

definition zhCampus :: string where \<comment> \<open>U+6821 U+56ED U+7ECF U+5386\<close>
  "zhCampus =
     [CHR 0xE6, CHR 0xA0, CHR 0xA1, CHR 0xE5, CHR 0x9B, CHR 0xAD,
      CHR 0xE7, CHR 0xBB, CHR 0x8F, CHR 0xE5, CHR 0x8E, CHR 0x86]"

definition zhEmail :: string where \<comment> \<open>U+90AE U+7BB1\<close>
  "zhEmail =
     [CHR 0xE9, CHR 0x82, CHR 0xAE, CHR 0xE7, CHR 0xAE, CHR 0xB1]"

definition zhPhone :: string where \<comment> \<open>U+7535 U+8BDD\<close>
  "zhPhone =
     [CHR 0xE7, CHR 0x94, CHR 0xB5, CHR 0xE8, CHR 0xAF, CHR 0x9D]"

definition zhWebsite :: string where \<comment> \<open>U+7F51 U+7AD9\<close>
  "zhWebsite =
     [CHR 0xE7, CHR 0xBD, CHR 0x91, CHR 0xE7, CHR 0xAB, CHR 0x99]"

definition zhPolitical :: string where \<comment> \<open>U+653F U+6CBB U+8EAB U+4EFD\<close>
  "zhPolitical =
     [CHR 0xE6, CHR 0x94, CHR 0xBF, CHR 0xE6, CHR 0xB2, CHR 0xBB,
      CHR 0xE8, CHR 0xBA, CHR 0xAB, CHR 0xE4, CHR 0xBB, CHR 0xBD]"

definition zhStrengths :: string where \<comment> \<open>U+4E2A U+4EBA U+4F18 U+52BF\<close>
  "zhStrengths =
     [CHR 0xE4, CHR 0xB8, CHR 0xAA, CHR 0xE4, CHR 0xBA, CHR 0xBA,
      CHR 0xE4, CHR 0xBC, CHR 0x98, CHR 0xE5, CHR 0x8A, CHR 0xBF]"

definition zhAwards :: string where \<comment> \<open>U+5956 U+9879 U+8363 U+8A89\<close>
  "zhAwards =
     [CHR 0xE5, CHR 0xA5, CHR 0x96, CHR 0xE9, CHR 0xA1, CHR 0xB9,
      CHR 0xE8, CHR 0x8D, CHR 0xA3, CHR 0xE8, CHR 0xAA, CHR 0x89]"

definition zhLanguage :: string where \<comment> \<open>U+8BED U+8A00 U+80FD U+529B\<close>
  "zhLanguage =
     [CHR 0xE8, CHR 0xAF, CHR 0xAD, CHR 0xE8, CHR 0xA8, CHR 0x80,
      CHR 0xE8, CHR 0x83, CHR 0xBD, CHR 0xE5, CHR 0x8A, CHR 0x9B]"

definition zhChinese :: string where \<comment> \<open>U+4E2D U+6587\<close>
  "zhChinese =
     [CHR 0xE4, CHR 0xB8, CHR 0xAD, CHR 0xE6, CHR 0x96, CHR 0x87]"

definition zhSwitchFailed :: string where \<comment> \<open>U+5207 U+6362 U+8BED U+8A00 U+5931 U+8D25\<close>
  "zhSwitchFailed =
     [CHR 0xE5, CHR 0x88, CHR 0x87, CHR 0xE6, CHR 0x8D, CHR 0xA2,
      CHR 0xE8, CHR 0xAF, CHR 0xAD, CHR 0xE8, CHR 0xA8, CHR 0x80,
      CHR 0xE5, CHR 0xA4, CHR 0xB1, CHR 0xE8, CHR 0xB4, CHR 0xA5]"

definition middleDot :: string where \<comment> \<open>U+0020 U+00B7 U+0020\<close>
  "middleDot =
     [CHR 0x20, CHR 0xC2, CHR 0xB7, CHR 0x20]"

section \<open>Markup fragments\<close>

text \<open>One definition per template literal of the script, with its line breaks and
  indentation.\<close>

definition tagSpan :: "jsval \<Rightarrow> string result" where
  \<open>tagSpan tag =
     template
     [lit ''<span class="tag">'',
      sub (Inr tag),
      lit ''</span>'']\<close>

definition techTag :: "jsval \<Rightarrow> string result" where
  \<open>techTag tech =
     template
     [lit ''<span class="tech-tag">'',
      sub (Inr tech),
      lit ''</span>'']\<close>

definition skillCard :: "runtime \<Rightarrow> jsval \<Rightarrow> string result" where
  \<open>skillCard rt skill =
     template
     [lit ''\<newline>'',
      lit ''    <div class="skill-card">\<newline>'',
      lit ''      <div class="skill-header">\<newline>'',
      lit ''        <div class="skill-icon">\<newline>'',
      lit ''          <ion-icon name="'',
      sub (getProp rt skill ''icon''),
      lit ''"></ion-icon>\<newline>'',
      lit ''        </div>\<newline>'',
      lit ''        <div class="skill-title">\<newline>'',
      lit ''          <div class="skill-name">'',
      sub (getProp rt skill ''category''),
      lit ''</div>\<newline>'',
      lit ''          <div class="skill-level">'',
      sub (getProp rt skill ''level''),
      lit ''</div>\<newline>'',
      lit ''        </div>\<newline>'',
      lit ''      </div>\<newline>'',
      lit ''      <div class="skill-progress">\<newline>'',
      lit ''        <div class="skill-progress-bar" data-progress="'',
      sub (getProp rt skill ''proficiency''),
      lit ''" style="width: 0%"></div>\<newline>'',
      lit ''      </div>\<newline>'',
      lit ''      <div class="skill-description">'',
      sub (getProp rt skill ''description''),
      lit ''</div>\<newline>'',
      lit ''      <div class="skill-technologies">\<newline>'',
      lit ''        '',
      bindE (getProp rt skill ''technologies'') (mapJoin techTag),
      lit ''\<newline>'',
      lit ''      </div>\<newline>'',
      lit ''    </div>\<newline>'',
      lit ''  '']\<close>

definition respItem :: "jsval \<Rightarrow> string result" where
  \<open>respItem resp =
     template
     [lit ''<li>'',
      sub (Inr resp),
      lit ''</li>'']\<close>

definition responsibilitiesBlock :: "runtime \<Rightarrow> string \<Rightarrow> jsval \<Rightarrow> string result" where
  \<open>responsibilitiesBlock rt lang project =
     bindE (getProp rt project ''responsibilities'') (\<lambda>r.
       if truthy r then
         template
           [lit ''\<newline>'',
            lit ''        <div class="project-responsibilities">\<newline>'',
            lit ''          <h4>'',
            lit (if lang = ''cn'' then zhResponsibilities else ''Responsibilities:''),
            lit ''</h4>\<newline>'',
            lit ''          <ul>\<newline>'',
            lit ''            '',
            bindE (getProp rt project ''responsibilities'') (mapJoin respItem),
            lit ''\<newline>'',
            lit ''          </ul>\<newline>'',
            lit ''        </div>\<newline>'',
            lit ''      '']
       else lit [])\<close>

definition achievementsBlock :: "runtime \<Rightarrow> string \<Rightarrow> jsval \<Rightarrow> string result" where
  \<open>achievementsBlock rt lang project =
     bindE (getProp rt project ''achievements'') (\<lambda>a.
       if truthy a then
         template
           [lit ''\<newline>'',
            lit ''        <div class="project-achievements">\<newline>'',
            lit ''          <h4>'',
            lit (if lang = ''cn'' then zhAchievements else ''Achievements:''),
            lit ''</h4>\<newline>'',
            lit ''          <p>'',
            sub (getProp rt project ''achievements''),
            lit ''</p>\<newline>'',
            lit ''        </div>\<newline>'',
            lit ''      '']
       else lit [])\<close>

definition projectCard :: "runtime \<Rightarrow> string \<Rightarrow> jsval \<Rightarrow> string result" where
  \<open>projectCard rt lang project =
     template
     [lit ''\<newline>'',
      lit ''    <div class="project-card">\<newline>'',
      lit ''      <div class="project-header">\<newline>'',
      lit ''        <div>\<newline>'',
      lit ''          <a href="'',
      sub (getProp rt project ''link''),
      lit ''" target="_blank" class="project-name">\<newline>'',
      lit ''            '',
      sub (getProp rt project ''name''),
      lit ''\<newline>'',
      lit ''          </a>\<newline>'',
      lit ''          <div class="project-meta">\<newline>'',
      lit ''            <span>\<newline>'',
      lit ''              <ion-icon name="business-outline"></ion-icon>\<newline>'',
      lit ''              '',
      sub (getProp rt project ''company''),
      lit ''\<newline>'',
      lit ''            </span>\<newline>'',
      lit ''            <span>\<newline>'',
      lit ''              <ion-icon name="person-outline"></ion-icon>\<newline>'',
      lit ''              '',
      sub (getProp rt project ''role''),
      lit ''\<newline>'',
      lit ''            </span>\<newline>'',
      lit ''          </div>\<newline>'',
      lit ''        </div>\<newline>'',
      lit ''        <div class="project-period">'',
      sub (getProp rt project ''period''),
      lit ''</div>\<newline>'',
      lit ''      </div>\<newline>'',
      lit ''\<newline>'',
      lit ''      <div class="project-description">'',
      sub (getProp rt project ''description''),
      lit ''</div>\<newline>'',
      lit ''\<newline>'',
      lit ''      '',
      responsibilitiesBlock rt lang project,
      lit ''\<newline>'',
      lit ''\<newline>'',
      lit ''      '',
      achievementsBlock rt lang project,
      lit ''\<newline>'',
      lit ''\<newline>'',
      lit ''      <div class="project-technologies">\<newline>'',
      lit ''        '',
      bindE (getProp rt project ''technologies'') (mapJoin techTag),
      lit ''\<newline>'',
      lit ''      </div>\<newline>'',
      lit ''    </div>\<newline>'',
      lit ''  '']\<close>

definition educationItem :: "runtime \<Rightarrow> jsval \<Rightarrow> string result" where
  \<open>educationItem rt edu =
     template
     [lit ''\<newline>'',
      lit ''    <div class="education-item">\<newline>'',
      lit ''      <div class="education-header">\<newline>'',
      lit ''        <div>\<newline>'',
      lit ''          <div class="education-degree">'',
      sub (getProp rt edu ''degree''),
      lit '' | '',
      sub (getProp rt edu ''university''),
      lit ''</div>\<newline>'',
      lit ''          <div class="education-university">'',
      sub (getProp rt edu ''college''),
      lit ''</div>\<newline>'',
      lit ''          <div class="education-major">'',
      sub (getProp rt edu ''major''),
      lit ''</div>\<newline>'',
      lit ''        </div>\<newline>'',
      lit ''        <div class="education-period">'',
      sub (getProp rt edu ''period''),
      lit ''</div>\<newline>'',
      lit ''      </div>\<newline>'',
      lit ''    </div>\<newline>'',
      lit ''  '']\<close>

definition campusItem :: "runtime \<Rightarrow> jsval \<Rightarrow> string result" where
  \<open>campusItem rt camp =
     template
     [lit ''\<newline>'',
      lit ''    <div class="campus-item">\<newline>'',
      lit ''      <div class="campus-header">\<newline>'',
      lit ''        <div>\<newline>'',
      lit ''          <div class="campus-org">'',
      sub (getProp rt camp ''organization''),
      bindE (getProp rt camp ''department'') (\<lambda>d.
        if truthy d then template [lit middleDot, sub (getProp rt camp ''department'')] else lit []),
      lit ''</div>\<newline>'',
      lit ''          <div class="campus-position">'',
      sub (getProp rt camp ''position''),
      lit ''</div>\<newline>'',
      lit ''        </div>\<newline>'',
      lit ''        <div class="campus-period">'',
      sub (getProp rt camp ''period''),
      lit ''</div>\<newline>'',
      lit ''      </div>\<newline>'',
      lit ''      <div class="campus-description">'',
      sub (getProp rt camp ''description''),
      lit ''</div>\<newline>'',
      lit ''    </div>\<newline>'',
      lit ''  '']\<close>

definition otherItem :: "string \<Rightarrow> jsval \<Rightarrow> string result" where
  \<open>otherItem label otherValue =
     template
     [lit ''\<newline>'',
      lit ''    <div class="other-item">\<newline>'',
      lit ''      <strong>'',
      lit label,
      lit ''</strong>\<newline>'',
      lit ''      <p>'',
      sub (Inr otherValue),
      lit ''</p>\<newline>'',
      lit ''    </div>\<newline>'',
      lit ''  '']\<close>

section \<open>Data loading\<close>

text \<open>The network as \<^verbatim>\<open>fetch\<close> sees it: a request is rejected, or answered by a response
  with its \<^verbatim>\<open>ok\<close> flag and the outcome of \<^verbatim>\<open>response.json()\<close>.\<close>

record response =
  ok :: bool
  json :: "jsval result"

type_synonym network = "string \<Rightarrow> response result"

definition dataFileOf :: "string \<Rightarrow> string" where
  "dataFileOf lang = ''_data/data-'' @ lang @ ''.json''"

definition loadLanguage :: "network \<Rightarrow> string \<Rightarrow> stmt" where
  "loadLanguage net lang s =
     (let dataFile = dataFileOf lang in
      case net dataFile of
        Inl e \<Rightarrow> (Some e, s)
      | Inr response \<Rightarrow>
          if \<not> ok response then (Some (Error (''Failed to load '' @ dataFile)), s)
          else (case json response of
                  Inl e \<Rightarrow> (Some e, s)
                | Inr d \<Rightarrow>
                    (None, s\<lparr>appData := d, currentLang := lang,
                             docLang := (if lang = ''cn'' then ''zh-CN'' else ''en'')\<rparr>)))"

section \<open>Render functions\<close>

text \<open>The render functions read the globals \<^verbatim>\<open>appData\<close> and \<^verbatim>\<open>currentLang\<close>, which only
  \<^verbatim>\<open>loadLanguage\<close> assigns, and the structure of the document, which no function of the
  script changes; a render function is given all three as they are in the state it
  starts in.\<close>

definition readGlobals :: "(jsval \<Rightarrow> string \<Rightarrow> page \<Rightarrow> stmt) \<Rightarrow> stmt" where
  "readGlobals body s = body (appData s) (currentLang s) (doc s) s"

definition navKey :: "navlink \<Rightarrow> string" where
  "navKey link = (case dataNav link of None \<Rightarrow> ''undefined'' | Some k \<Rightarrow> k)"

definition renderNavLink :: "runtime \<Rightarrow> jsval \<Rightarrow> navlink \<Rightarrow> nat \<Rightarrow> stmt" where
  "renderNavLink rt nav link i =
     (let key = navKey link in
      evalThen (getProp rt nav key)
        (\<lambda>v. if truthy v then setTextContent (NavLink i) (Inr v) else seq []))"

definition renderNav :: "runtime \<Rightarrow> stmt" where
  "renderNav rt =
     readGlobals (\<lambda>data lang pg.
       evalThen (getProp rt data ''nav'')
         (\<lambda>nav. seq (map (\<lambda>i. renderNavLink rt nav (navLinks pg ! i) i)
                        [0..<length (navLinks pg)])))"

definition renderHero :: "runtime \<Rightarrow> stmt" where
  "renderHero rt =
     readGlobals (\<lambda>data lang pg.
     evalThen (getProp rt data ''profile'')
       (\<lambda>profile. seq
          [setAttr (ById ''avatar'') Src (getProp rt profile ''avatar''),
           setTextContent (ById ''name'') (getProp rt profile ''name''),
           setTextContent (ById ''title'') (getProp rt profile ''title''),
           setTextContent (ById ''intro'') (getProp rt profile ''intro''),
           if lang = ''cn'' then seq
             [setTextContent (HeroBtn 0) (Inr (JStr zhViewProjects)),
              setTextContent (HeroBtn 1) (Inr (JStr zhContactMe))]
           else seq
             [setTextContent (HeroBtn 0) (Inr (JStr ''View Projects'')),
              setTextContent (HeroBtn 1) (Inr (JStr ''Contact Me''))]]))"

definition renderAbout :: "runtime \<Rightarrow> stmt" where
  "renderAbout rt =
     readGlobals (\<lambda>data lang pg.
     evalThen (getProp rt data ''profile'')
       (\<lambda>profile. seq
          [setTextContent (ById ''bio'') (getProp rt profile ''bio''),
           setInnerHTML (ById ''tags'') (bindE (getProp rt profile ''tags'') (mapJoin tagSpan))]))"

definition renderSkills :: "runtime \<Rightarrow> stmt" where
  "renderSkills rt =
     readGlobals (\<lambda>data lang pg.
     evalThen (getProp rt data ''skills'')
       (\<lambda>skills. seq
          [setInnerHTML (ById ''skills-grid'') (mapJoin (skillCard rt) skills),
           setTimeout AnimateProgressBars]))"

definition renderProjects :: "runtime \<Rightarrow> stmt" where
  "renderProjects rt =
     readGlobals (\<lambda>data lang pg.
     evalThen (getProp rt data ''projects'')
       (\<lambda>projects. seq
          [setInnerHTML (ById ''projects-timeline'')
             (mapJoin (projectCard rt lang) projects)]))"

definition renderEducation :: "runtime \<Rightarrow> stmt" where
  "renderEducation rt =
     readGlobals (\<lambda>data lang pg.
     evalThen (getProp rt data ''education'')
       (\<lambda>education. seq
          [setInnerHTML (ById ''education-list'')
             (bindE (getProp rt education ''education'') (mapJoin (educationItem rt))),
           setInnerHTML (ById ''campus-list'')
             (bindE (getProp rt education ''campus'') (mapJoin (campusItem rt))),
           if hasSubsectionTitle pg then
             setTextContent SubsectionTitle
               (Inr (JStr (if lang = ''cn'' then zhCampus else ''Campus Experience'')))
           else seq []]))"

definition otherLabels :: "string \<Rightarrow> string list" where
  "otherLabels lang =
     (if lang = ''cn'' then [zhPolitical, zhStrengths, zhAwards, zhLanguage]
      else [''Political Status'', ''Strengths'', ''Awards'', ''Language''])"

definition otherHTML :: "runtime \<Rightarrow> string \<Rightarrow> jsval \<Rightarrow> string result" where
  "otherHTML rt lang profile =
     bindE (getProp rt profile ''other'') (\<lambda>other.
     bindE (mapE (getProp rt other) [''political'', ''advantages'', ''awards'', ''language''])
       (\<lambda>otherValues.
     bindE (mapE (\<lambda>(label, v). otherItem label v) (zip (otherLabels lang) otherValues))
       (\<lambda>ys. Inr (concat ys))))"

definition renderContact :: "runtime \<Rightarrow> stmt" where
  "renderContact rt =
     readGlobals (\<lambda>data lang pg.
     evalThen (getProp rt data ''profile'')
       (\<lambda>profile. seq
          [setTextContent (ById ''contact-email'') (getPath rt profile [''contact'', ''email'']),
           setTextContent (ById ''contact-phone'') (getPath rt profile [''contact'', ''phone'']),
           setAttr (ById ''contact-github'') Href (getPath rt profile [''contact'', ''github'']),
           setTextContent (ById ''contact-github'') (Inr (JStr ''GGyongfeng'')),
           setAttr (ById ''contact-website'') Href (getPath rt profile [''contact'', ''website'']),
           setTextContent (ById ''contact-website'')
             (bindE (getPath rt profile [''contact'', ''website''])
                (stringReplace ''https://'' [])),
           if lang = ''cn'' then seq
             [setTextContent (ContactTitle 0) (Inr (JStr zhEmail)),
              setTextContent (ContactTitle 1) (Inr (JStr zhPhone)),
              setTextContent (ContactTitle 2) (Inr (JStr ''GitHub'')),
              setTextContent (ContactTitle 3) (Inr (JStr zhWebsite))]
           else seq
             [setTextContent (ContactTitle 0) (Inr (JStr ''Email'')),
              setTextContent (ContactTitle 1) (Inr (JStr ''Phone'')),
              setTextContent (ContactTitle 2) (Inr (JStr ''GitHub'')),
              setTextContent (ContactTitle 3) (Inr (JStr ''Website''))],
           setInnerHTML (ById ''other-info'') (otherHTML rt lang profile)]))"

definition renderFooter :: "runtime \<Rightarrow> stmt" where
  "renderFooter rt =
     readGlobals (\<lambda>data lang pg.
     evalThen (getProp rt data ''profile'')
       (\<lambda>profile. seq
          [setAttr (ById ''footer-github'') Href (getPath rt profile [''contact'', ''github'']),
           setAttr (ById ''footer-website'') Href (getPath rt profile [''contact'', ''website''])]))"

definition renderAll :: "runtime \<Rightarrow> stmt" where
  "renderAll rt =
     seq [renderNav rt, renderHero rt, renderAbout rt, renderSkills rt, renderProjects rt,
          renderEducation rt, renderContact rt, renderFooter rt]"

section \<open>The language toggle\<close>

text \<open>\<^verbatim>\<open>toggleLanguage\<close> is the click listener of the toggle control, so the control exists;
  its \<^verbatim>\<open>.lang-text\<close> child may not. Everything after the two loading-state writes is inside
  \<^verbatim>\<open>try\<close>, so the call itself never throws.\<close>

definition setToggleText :: "string \<Rightarrow> stmt" where
  "setToggleText t s =
     (if hasLangText (doc s) then (None, s\<lparr>toggleText := t\<rparr>) else (Some TypeError, s))"

definition failureNotice :: string where
  "failureNotice = zhSwitchFailed @ '' / Failed to switch language''"

definition toggleLanguage :: "runtime \<Rightarrow> network \<Rightarrow> state \<Rightarrow> state" where
  "toggleLanguage rt net s =
     (let newLang = (if currentLang s = ''cn'' then ''en'' else ''cn'');
          s1 = s\<lparr>toggleDisabled := True, toggleOpacity := ''0.5''\<rparr>;
          (r, s2) = seq [loadLanguage net newLang,
                         renderAll rt,
                         setToggleText (if newLang = ''cn'' then ''EN'' else zhChinese)] s1;
          s3 = (case r of
                  None \<Rightarrow> s2
                | Some e \<Rightarrow>
                    s2\<lparr>consoleErrors := consoleErrors s2 @ [(''Failed to switch language:'', e)],
                       alerts := alerts s2 @ [failureNotice]\<rparr>)
      in s3\<lparr>toggleDisabled := False, toggleOpacity := ''1''\<rparr>)"

section \<open>The active navigation link\<close>

text \<open>The first loop of \<^verbatim>\<open>updateActiveNavLink\<close>, over the sections in document order, with
  its variable \<^verbatim>\<open>current\<close>; \<^verbatim>\<open>getAttribute\<close> gives \<^verbatim>\<open>null\<close> (here \<open>None\<close>) for an absent
  attribute. Offsets and the scroll position are whole pixels.\<close>

fun currentSection :: "int \<Rightarrow> pageSection list \<Rightarrow> string option \<Rightarrow> string option" where
  "currentSection y [] current = current"
| "currentSection y (sec # secs) current =
     currentSection y secs (if y \<ge> offsetTop sec - 100 then sectionId sec else current)"

definition hashOf :: "string option \<Rightarrow> string" where
  "hashOf current = ''#'' @ (case current of None \<Rightarrow> ''null'' | Some i \<Rightarrow> i)"

definition updateLink :: "string option \<Rightarrow> nat \<Rightarrow> state \<Rightarrow> state" where
  "updateLink current i s =
     (let s1 = s\<lparr>navActive := (navActive s)(i := False)\<rparr> in
      if href (navLinks (doc s1) ! i) = Some (hashOf current)
      then s1\<lparr>navActive := (navActive s1)(i := True)\<rparr> else s1)"

definition updateActiveNavLink :: "state \<Rightarrow> state" where
  "updateActiveNavLink s =
     (let current = currentSection (scrollY s) (sections (doc s)) (Some []) in
      fold (updateLink current) [0..<length (navLinks (doc s))] s)"

section \<open>The active section as the specification words it, and names for the blocks\<close>

text \<open>The specification describes the highlighted section as the last one, in document
  order, whose top offset passes the test against the scroll position with the lookahead
  of 100. This definition follows those words, to be compared with the loop
  \<open>currentSection\<close>.\<close>

definition specActiveSection :: "int \<Rightarrow> pageSection list \<Rightarrow> pageSection option" where
  "specActiveSection y secs =
     (case filter (\<lambda>sec. offsetTop sec - 100 \<le> y) secs of
        [] \<Rightarrow> None
      | q # qs \<Rightarrow> Some (last (q # qs)))"

text \<open>An entry has a field, in the specification's words, when the field is among its own
  members.\<close>

definition hasField :: "jsval \<Rightarrow> string \<Rightarrow> bool" where
  "hasField v k =
     (case v of
        JObj kvs \<Rightarrow> map_of kvs k \<noteq> None
      | JArr xs \<Rightarrow> arrayMember xs k \<noteq> None
      | _ \<Rightarrow> False)"

text \<open>The two optional blocks of a project fragment as text: what the conditional parts of
  the template (lines 278 to 292 of the script) give around the list items, and around the
  text of the achievements.\<close>

definition responsibilitiesMarkup :: "string \<Rightarrow> string \<Rightarrow> string" where
  \<open>responsibilitiesMarkup lang items =
     ''\<newline>        <div class="project-responsibilities">\<newline>''
     @ ''          <h4>''
     @ (if lang = ''cn'' then zhResponsibilities else ''Responsibilities:'')
     @ ''</h4>\<newline>''
     @ ''          <ul>\<newline>''
     @ ''            '' @ items @ ''\<newline>''
     @ ''          </ul>\<newline>''
     @ ''        </div>\<newline>''
     @ ''      ''\<close>

definition achievementsMarkup :: "string \<Rightarrow> string \<Rightarrow> string" where
  \<open>achievementsMarkup lang achievements =
     ''\<newline>        <div class="project-achievements">\<newline>''
     @ ''          <h4>''
     @ (if lang = ''cn'' then zhAchievements else ''Achievements:'')
     @ ''</h4>\<newline>''
     @ ''          <p>'' @ achievements @ ''</p>\<newline>''
     @ ''        </div>\<newline>''
     @ ''      ''\<close>

text \<open>A project fragment with the blocks \<open>rb\<close> and \<open>ab\<close> at their place: after the
  description element, before the technologies element, in this order.\<close>

definition fragmentWith :: "string \<Rightarrow> string \<Rightarrow> string \<Rightarrow> string \<Rightarrow> string" where
  \<open>fragmentWith pre rb ab post =
     pre @ ''</div>\<newline>\<newline>      '' @ rb @ ''\<newline>\<newline>      '' @ ab
     @ ''\<newline>\<newline>      <div class="project-technologies">\<newline>        '' @ post\<close>

section \<open>The loader's contract as the specification words it\<close>

text \<open>The specification's data model names five required top-level fields, and its loader
  contract has the load fail when the request does not succeed or the body is not
  parseable as that shape. These two definitions follow the specification's words, to be
  compared with \<open>loadLanguage\<close>.\<close>

definition specExpectedShape :: "jsval \<Rightarrow> bool" where
  "specExpectedShape d =
     (case d of
        JObj kvs \<Rightarrow>
          list_all (\<lambda>k. map_of kvs k \<noteq> None)
            [''nav'', ''profile'', ''skills'', ''projects'', ''education'']
      | _ \<Rightarrow> False)"

definition specLoadError :: "network \<Rightarrow> string \<Rightarrow> bool" where
  "specLoadError net lang =
     (case net (dataFileOf lang) of
        Inl e \<Rightarrow> True
      | Inr r \<Rightarrow>
          (if ok r then (case json r of Inl e \<Rightarrow> True | Inr d \<Rightarrow> \<not> specExpectedShape d)
           else True))"

section \<open>A small page and its data, for worked instances\<close>

definition demoPage :: page where
  "demoPage =
     \<lparr>ids = [''avatar'', ''name'', ''title'', ''intro'', ''bio'', ''tags'', ''skills-grid'',
             ''projects-timeline'', ''education-list'', ''campus-list'', ''contact-email'',
             ''contact-phone'', ''contact-github'', ''contact-website'', ''other-info'',
             ''footer-github'', ''footer-website''],
      navLinks = [\<lparr>dataNav = Some ''home'', href = Some ''#hero''\<rparr>,
                  \<lparr>dataNav = Some ''about'', href = Some ''#about''\<rparr>,
                  \<lparr>dataNav = Some ''skills'', href = Some ''#skills''\<rparr>],
      heroBtns = 2,
      contactTitles = 4,
      hasSubsectionTitle = True,
      hasLangText = True,
      sections = [\<lparr>offsetTop = 0, sectionId = Some ''hero''\<rparr>,
                  \<lparr>offsetTop = 500, sectionId = Some ''about''\<rparr>,
                  \<lparr>offsetTop = 1200, sectionId = Some ''skills''\<rparr>]\<rparr>"

text \<open>A runtime for the worked instances: the members a parsed object inherits from
  \<^verbatim>\<open>Object.prototype\<close> in a browser, the functions with the text V8 prints for them. The
  instances read members of parsed objects only.\<close>

definition objectPrototype :: "(string \<times> jsval) list" where
  "objectPrototype =
     [(''constructor'', JNative ''function Object() { [native code] }''),
      (''hasOwnProperty'', JNative ''function hasOwnProperty() { [native code] }''),
      (''isPrototypeOf'', JNative ''function isPrototypeOf() { [native code] }''),
      (''propertyIsEnumerable'', JNative ''function propertyIsEnumerable() { [native code] }''),
      (''toLocaleString'', JNative ''function toLocaleString() { [native code] }''),
      (''toString'', JNative ''function toString() { [native code] }''),
      (''valueOf'', JNative ''function valueOf() { [native code] }''),
      (''__defineGetter__'', JNative ''function __defineGetter__() { [native code] }''),
      (''__defineSetter__'', JNative ''function __defineSetter__() { [native code] }''),
      (''__lookupGetter__'', JNative ''function __lookupGetter__() { [native code] }''),
      (''__lookupSetter__'', JNative ''function __lookupSetter__() { [native code] }''),
      (''__proto__'', JNative ''[object Object]'')]"

definition demoRuntime :: runtime where
  "demoRuntime v k = (case v of JObj kvs \<Rightarrow> map_of objectPrototype k | _ \<Rightarrow> None)"


definition demoState :: state where
  "demoState =
     \<lparr>appData = JNull, currentLang = ''cn'', docLang = ''zh-CN'', doc = demoPage,
      content = (\<lambda>t. []), navActive = (\<lambda>i. False), scrollY = 0,
      toggleDisabled = False, toggleOpacity = ''1'', toggleText = ''EN'',
      alerts = [], consoleErrors = [], timers = []\<rparr>"

definition netDown :: network where
  "netDown url = Inr \<lparr>ok = False, json = Inl SyntaxError\<rparr>"

definition netGarbled :: network where
  "netGarbled url = Inr \<lparr>ok = True, json = Inl SyntaxError\<rparr>"

definition netShapeless :: network where
  "netShapeless url = Inr \<lparr>ok = True, json = Inr (JObj [])\<rparr>"


definition demoProject :: jsval where
  "demoProject =
     JObj [(''name'', JStr ''Site''), (''link'', JStr ''https://example.org''),
           (''company'', JStr ''Lab''), (''role'', JStr ''Developer''),
           (''period'', JStr ''2024''), (''description'', JStr ''A page''),
           (''responsibilities'', JArr []), (''achievements'', JStr []),
           (''technologies'', JArr [JStr ''JS''])]"

definition demoProjectFull :: jsval where
  "demoProjectFull =
     JObj [(''name'', JStr ''Shop''), (''link'', JStr ''https://example.org/s''),
           (''company'', JStr ''Lab''), (''role'', JStr ''Lead''),
           (''period'', JStr ''2025''), (''description'', JStr ''A shop''),
           (''responsibilities'', JArr [JStr ''Build'', JStr ''Test'']),
           (''achievements'', JStr ''Shipped''),
           (''technologies'', JArr [JStr ''JS''])]"

text \<open>An entry whose \<^verbatim>\<open>responsibilities\<close> is a string.\<close>

definition demoProjectOdd :: jsval where
  "demoProjectOdd =
     JObj [(''name'', JStr ''Odd''), (''link'', JStr ''https://example.org/o''),
           (''company'', JStr ''Lab''), (''role'', JStr ''Intern''),
           (''period'', JStr ''2022''), (''description'', JStr ''Odd''),
           (''responsibilities'', JStr ''everything''),
           (''technologies'', JArr [])]"

definition demoProjectBare :: jsval where
  "demoProjectBare =
     JObj [(''name'', JStr ''Notes''), (''link'', JStr ''https://example.org/n''),
           (''company'', JStr ''Lab''), (''role'', JStr ''Author''),
           (''period'', JStr ''2023''), (''description'', JStr ''Notes''),
           (''technologies'', JArr [])]"

definition demoProfile :: jsval where
  "demoProfile =
     JObj [(''name'', JStr ''G''), (''title'', JStr ''Engineer''), (''intro'', JStr ''Hi''),
           (''bio'', JStr ''Bio''), (''tags'', JArr [JStr ''web'']),
           (''avatar'', JStr ''a.png''),
           (''contact'', JObj [(''email'', JStr ''g@example.org''), (''phone'', JStr ''123''),
                              (''github'', JStr ''https://github.com/g''),
                              (''website'', JStr ''https://example.org'')]),
           (''other'', JObj [(''political'', JStr ''p''), (''advantages'', JStr ''a''),
                            (''awards'', JStr ''w''), (''language'', JStr ''l'')])]"

definition demoData :: "jsval \<Rightarrow> jsval" where
  "demoData nav =
     JObj [(''nav'', nav), (''profile'', demoProfile), (''skills'', JArr []),
           (''projects'', JArr [demoProjectBare]),
           (''education'', JObj [(''education'', JArr []), (''campus'', JArr [])])]"

text \<open>The Chinese data set labels only the first link; the English one labels the first
  two.\<close>

definition demoDataCn :: jsval where
  "demoDataCn = demoData (JObj [(''home'', JStr ''Start'')])"

definition demoDataEn :: jsval where
  "demoDataEn = demoData (JObj [(''home'', JStr ''Home''), (''about'', JStr ''About'')])"

definition demoNet :: network where
  "demoNet url =
     (if url = ''_data/data-cn.json'' then Inr \<lparr>ok = True, json = Inr demoDataCn\<rparr>
      else if url = ''_data/data-en.json'' then Inr \<lparr>ok = True, json = Inr demoDataEn\<rparr>
      else Inl NetworkError)"

text \<open>The page after the start-up sequence (load, then render) in a locale.\<close>

definition demoRendered :: "string \<Rightarrow> state" where
  "demoRendered L = snd (renderAll demoRuntime (snd (loadLanguage demoNet L demoState)))"

section \<open>What a render pass writes\<close>

text \<open>A render statement never reads the content it overwrites: at given globals and
  document structure it has one outcome, one finite set of writes and one list of timers
  to start, whatever the content was before. \<open>performs\<close> says so for a statement;
  \<open>footprint\<close> bounds the written places by a set, reached in full when the statement
  completes.\<close>

definition overwrite :: "('k \<Rightarrow> 'v) \<Rightarrow> ('k \<rightharpoonup> 'v) \<Rightarrow> 'k \<Rightarrow> 'v" where
  "overwrite c m = (\<lambda>t. case m t of None \<Rightarrow> c t | Some v \<Rightarrow> v)"

definition performs ::
  "jsval \<Rightarrow> string \<Rightarrow> page \<Rightarrow> stmt \<Rightarrow> js_error option \<Rightarrow> (node \<times> property \<rightharpoonup> string) \<Rightarrow>
   timer list \<Rightarrow> bool" where
  "performs d l pg c r m ts =
     (\<forall>s. appData s = d \<and> currentLang s = l \<and> doc s = pg \<longrightarrow>
          c s = (r, s\<lparr>content := overwrite (content s) m, timers := timers s @ ts\<rparr>))"

definition footprint ::
  "jsval \<Rightarrow> string \<Rightarrow> page \<Rightarrow> stmt \<Rightarrow> (node \<times> property) set \<Rightarrow> bool" where
  "footprint d l pg c D =
     (\<exists>r m ts. performs d l pg c r m ts \<and> dom m \<subseteq> D \<and> (r = None \<longrightarrow> dom m = D))"

text \<open>A data set labels a navigation link when \<^verbatim>\<open>nav[key]\<close>, read from its \<^verbatim>\<open>nav\<close> member under
  the link's key (an own member, or one the runtime finds), is truthy: the links
  \<open>renderNav\<close> sets out to overwrite.\<close>

definition navLabelled :: "runtime \<Rightarrow> jsval \<Rightarrow> navlink \<Rightarrow> bool" where
  "navLabelled rt d link =
     (case getProp rt d ''nav'' of
        Inl e \<Rightarrow> False
      | Inr nav \<Rightarrow>
          (case getProp rt nav (navKey link) of Inl e \<Rightarrow> False | Inr v \<Rightarrow> truthy v))"

definition navTargets :: "runtime \<Rightarrow> jsval \<Rightarrow> page \<Rightarrow> (node \<times> property) set" where
  "navTargets rt d pg =
     {(NavLink i, TextContent) | i.
        i < length (navLinks pg) \<and> navLabelled rt d (navLinks pg ! i)}"

definition fixedTargets :: "page \<Rightarrow> (node \<times> property) set" where
  "fixedTargets pg =
     {(ById ''avatar'', Src), (ById ''name'', TextContent), (ById ''title'', TextContent),
      (ById ''intro'', TextContent), (HeroBtn 0, TextContent), (HeroBtn 1, TextContent),
      (ById ''bio'', TextContent), (ById ''tags'', InnerHTML),
      (ById ''skills-grid'', InnerHTML), (ById ''projects-timeline'', InnerHTML),
      (ById ''education-list'', InnerHTML), (ById ''campus-list'', InnerHTML),
      (ById ''contact-email'', TextContent), (ById ''contact-phone'', TextContent),
      (ById ''contact-github'', Href), (ById ''contact-github'', TextContent),
      (ById ''contact-website'', Href), (ById ''contact-website'', TextContent),
      (ContactTitle 0, TextContent), (ContactTitle 1, TextContent),
      (ContactTitle 2, TextContent), (ContactTitle 3, TextContent),
      (ById ''other-info'', InnerHTML), (ById ''footer-github'', Href),
      (ById ''footer-website'', Href)}
     \<union> (if hasSubsectionTitle pg then {(SubsectionTitle, TextContent)} else {})"

text \<open>\<^verbatim>\<open>nav[key]\<close> for a \<^verbatim>\<open>nav\<close> member that is a parsed object with the members \<open>kvs\<close>, and
  the text of the navigation links after the first \<open>n\<close> links have been visited, over the
  content \<open>c\<close> from before, when every truthy label converts to a string.\<close>

definition navLabel :: "runtime \<Rightarrow> (string \<times> jsval) list \<Rightarrow> string \<Rightarrow> jsval" where
  "navLabel rt kvs key =
     (case map_of kvs key of Some v \<Rightarrow> v | None \<Rightarrow> runtimeMember rt (JObj kvs) key)"

definition navContent ::
  "runtime \<Rightarrow> (string \<times> jsval) list \<Rightarrow> page \<Rightarrow> nat \<Rightarrow> (node \<times> property \<Rightarrow> string) \<Rightarrow>
   node \<times> property \<Rightarrow> string" where
  "navContent rt kvs pg n c t =
     (case t of
        (NavLink i, TextContent) \<Rightarrow>
          (if i < n \<and> truthy (navLabel rt kvs (navKey (navLinks pg ! i))) then
             (case toString (navLabel rt kvs (navKey (navLinks pg ! i))) of
                Inr x \<Rightarrow> x
              | Inl e \<Rightarrow> c t)
           else c t)
      | _ \<Rightarrow> c t)"

section \<open>Evaluation rules for expressions and blocks\<close>

lemma bindE_Inl: "bindE (Inl e) f = Inl e"
  by (simp add: bindE_def)

lemma bindE_Inr: "bindE (Inr v) f = f v"
  by (simp add: bindE_def)

lemma bindE_eq_Inr: "(bindE r f = Inr y) = (\<exists>x. r = Inr x \<and> f x = Inr y)"
  by (cases r) (simp_all add: bindE_def)

lemma template_Nil: "template [] = Inr []"
  by (simp add: template_def bindE_def)

lemma template_Cons:
  "template (p # ps) = bindE p (\<lambda>x. bindE (template ps) (\<lambda>y. Inr (x @ y)))"
  by (simp add: template_def bindE_def split: sum.splits)

lemma template_parts:
  "template ps = Inr html \<Longrightarrow> \<exists>xs. ps = map Inr xs \<and> html = concat xs"
proof (induction ps arbitrary: html)
  case Nil
  then show ?case by (simp add: template_Nil)
next
  case (Cons p ps)
  from Cons.prems obtain x y where p: "p = Inr x" and y: "template ps = Inr y"
    and html: "html = x @ y"
    by (auto simp: template_Cons bindE_eq_Inr)
  from Cons.IH [OF y] obtain xs where "ps = map Inr xs" "y = concat xs"
    by blast
  with p html have "p # ps = map Inr (x # xs) \<and> html = concat (x # xs)"
    by simp
  then show ?case by (rule exI)
qed

lemma template_lit_nonempty:
  "template (lit (c # cs) # ps) \<noteq> Inr []"
  by (auto simp: template_Cons lit_def bindE_eq_Inr bindE_Inr)

lemma seq_append:
  "seq (xs @ ys) s =
     (case seq xs s of (None, s') \<Rightarrow> seq ys s' | (Some e, s') \<Rightarrow> (Some e, s'))"
  by (induction xs arbitrary: s) (auto split: prod.splits option.splits)

text \<open>Blocks are unfolded by name only: a block is also met unapplied, as a statement.\<close>

declare seq.simps [simp del]

section \<open>Loading: failure, success and what is checked\<close>

lemma loadLanguage_cases:
  "loadLanguage net L s =
     (case net (dataFileOf L) of
        Inl e \<Rightarrow> (Some e, s)
      | Inr r \<Rightarrow>
          if \<not> ok r then (Some (Error (''Failed to load '' @ dataFileOf L)), s)
          else (case json r of
                  Inl e \<Rightarrow> (Some e, s)
                | Inr d \<Rightarrow>
                    (None, s\<lparr>appData := d, currentLang := L,
                             docLang := (if L = ''cn'' then ''zh-CN'' else ''en'')\<rparr>)))"
  by (simp add: loadLanguage_def Let_def)

lemma loadLanguage_failure_state:
  "fst (loadLanguage net L s) \<noteq> None \<Longrightarrow> snd (loadLanguage net L s) = s"
  by (auto simp: loadLanguage_cases split: sum.splits if_splits)

text \<open>
  Claim C1. Whenever \<open>loadLanguage\<close> throws (the request is rejected, the response is not
  OK, or the body does not parse), the state after the call is the state before it: the
  active data set, the active locale code and the document's language attribute keep
  their values, and so does everything else.
\<close>

theorem loadLanguage_failure_unchanged:
  assumes "fst (loadLanguage net L s) \<noteq> None"
  shows "snd (loadLanguage net L s) = s
       \<and> appData (snd (loadLanguage net L s)) = appData s
       \<and> currentLang (snd (loadLanguage net L s)) = currentLang s
       \<and> docLang (snd (loadLanguage net L s)) = docLang s"
proof -
  have "snd (loadLanguage net L s) = s"
    using assms by (rule loadLanguage_failure_state)
  then show ?thesis by simp
qed

theorem loadLanguage_failure_unchanged_witness:
  "fst (loadLanguage netDown ''en'' demoState) \<noteq> None
   \<and> snd (loadLanguage netDown ''en'' demoState) = demoState
   \<and> fst (loadLanguage netGarbled ''en'' demoState) \<noteq> None
   \<and> currentLang (snd (loadLanguage netGarbled ''en'' demoState)) = ''cn''"
proof -
  have a: "fst (loadLanguage netDown ''en'' demoState) \<noteq> None"
    by (simp add: loadLanguage_cases netDown_def)
  have b: "fst (loadLanguage netGarbled ''en'' demoState) \<noteq> None"
    by (simp add: loadLanguage_cases netGarbled_def)
  have c: "currentLang demoState = ''cn''"
    by (simp add: demoState_def)
  show ?thesis
    using a b c loadLanguage_failure_unchanged [OF a] loadLanguage_failure_unchanged [OF b]
    by simp
qed

text \<open>
  Claim C3, as stated: the load fails exactly when the request does not succeed or the
  body is not parseable as the expected document shape. The script never looks at the
  shape: the body \<^verbatim>\<open>{}\<close> is valid JSON, has none of the required fields, and is loaded.
\<close>

theorem loadLanguage_shape_counterexample:
  "specLoadError netShapeless ''cn''
   \<and> loadLanguage netShapeless ''cn'' demoState =
       (None, demoState\<lparr>appData := JObj [], currentLang := ''cn'', docLang := ''zh-CN''\<rparr>)"
  by (simp add: specLoadError_def specExpectedShape_def netShapeless_def loadLanguage_cases)

text \<open>
  Claim C3, amended. \<open>loadLanguage\<close> throws exactly when the request is rejected, the
  response is not OK, or the body is not valid JSON; every body that parses is accepted
  and becomes the active data set, whatever its shape.
\<close>

theorem loadLanguage_raises_iff:
  "(fst (loadLanguage net L s) \<noteq> None) =
     ((\<exists>e. net (dataFileOf L) = Inl e)
      \<or> (\<exists>r. net (dataFileOf L) = Inr r \<and> (\<not> ok r \<or> (\<exists>e. json r = Inl e))))
   \<and> (\<forall>r d. net (dataFileOf L) = Inr r \<and> ok r \<and> json r = Inr d \<longrightarrow>
         fst (loadLanguage net L s) = None \<and> appData (snd (loadLanguage net L s)) = d)"
  by (auto simp: loadLanguage_cases split: sum.splits)

theorem loadLanguage_raises_iff_witness:
  "fst (loadLanguage netDown ''cn'' demoState) \<noteq> None
   \<and> fst (loadLanguage netShapeless ''cn'' demoState) = None
   \<and> appData (snd (loadLanguage netShapeless ''cn'' demoState)) = JObj []"
proof -
  have down: "netDown (dataFileOf ''cn'') = Inr \<lparr>ok = False, json = Inl SyntaxError\<rparr>"
    by (simp add: netDown_def)
  have shapeless: "netShapeless (dataFileOf ''cn'') = Inr \<lparr>ok = True, json = Inr (JObj [])\<rparr>"
    by (simp add: netShapeless_def)
  show ?thesis
    using loadLanguage_raises_iff [of netDown "''cn''" demoState]
      loadLanguage_raises_iff [of netShapeless "''cn''" demoState] down shapeless
    by simp
qed

text \<open>
  Claim C8. A successful \<open>loadLanguage net L\<close> changes the state in exactly three fields:
  the active data set becomes the parsed body, the active locale code becomes \<open>L\<close>, and
  the document's language attribute becomes \<^verbatim>\<open>zh-CN\<close> for \<^verbatim>\<open>cn\<close> and \<^verbatim>\<open>en\<close> otherwise (so
  \<^verbatim>\<open>en\<close> for \<^verbatim>\<open>en\<close>). The written document content is among the fields left as they were.
\<close>

theorem loadLanguage_success_frame:
  assumes "fst (loadLanguage net L s) = None"
  shows "\<exists>r d. net (dataFileOf L) = Inr r \<and> ok r \<and> json r = Inr d
           \<and> snd (loadLanguage net L s) =
               s\<lparr>appData := d, currentLang := L,
                 docLang := (if L = ''cn'' then ''zh-CN'' else ''en'')\<rparr>
           \<and> content (snd (loadLanguage net L s)) = content s
           \<and> navActive (snd (loadLanguage net L s)) = navActive s
           \<and> toggleText (snd (loadLanguage net L s)) = toggleText s"
  using assms
  by (auto simp: loadLanguage_cases split: sum.splits if_splits)

theorem loadLanguage_success_frame_witness:
  "fst (loadLanguage netShapeless ''cn'' demoState) = None
   \<and> docLang (snd (loadLanguage netShapeless ''cn'' demoState)) = ''zh-CN''
   \<and> fst (loadLanguage netShapeless ''en'' demoState) = None
   \<and> docLang (snd (loadLanguage netShapeless ''en'' demoState)) = ''en''
   \<and> content (snd (loadLanguage netShapeless ''en'' demoState)) = content demoState"
proof -
  have a: "fst (loadLanguage netShapeless ''cn'' demoState) = None"
    by (simp add: loadLanguage_cases netShapeless_def)
  have b: "fst (loadLanguage netShapeless ''en'' demoState) = None"
    by (simp add: loadLanguage_cases netShapeless_def)
  show ?thesis
    using a b loadLanguage_success_frame [OF a] loadLanguage_success_frame [OF b]
    by auto
qed

section \<open>The active navigation link\<close>

lemma currentSection_filter:
  "currentSection y secs cur =
     (case filter (\<lambda>sec. offsetTop sec - 100 \<le> y) secs of
        [] \<Rightarrow> cur
      | q # qs \<Rightarrow> sectionId (last (q # qs)))"
proof (induction secs arbitrary: cur)
  case Nil
  show ?case by simp
next
  case (Cons sec secs)
  show ?case
    by (cases "filter (\<lambda>sec. offsetTop sec - 100 \<le> y) secs") (simp_all add: Cons.IH)
qed

lemma currentSection_spec:
  "currentSection y secs (Some []) =
     (case specActiveSection y secs of None \<Rightarrow> Some [] | Some sec \<Rightarrow> sectionId sec)"
  by (simp add: currentSection_filter specActiveSection_def split: list.splits)

lemma fold_updateLink:
  "fold (updateLink cur) [0..<n] s =
     s\<lparr>navActive := (\<lambda>i. if i < n then href (navLinks (doc s) ! i) = Some (hashOf cur)
                            else navActive s i)\<rparr>"
proof (induction n)
  case 0
  show ?case by simp
next
  case (Suc n)
  have step: "fold (updateLink cur) [0..<Suc n] s = updateLink cur n (fold (updateLink cur) [0..<n] s)"
    by simp
  have ext: "(\<lambda>i. if i < Suc n then href (navLinks (doc s) ! i) = Some (hashOf cur) else navActive s i)
        = (\<lambda>i. if i < n then href (navLinks (doc s) ! i) = Some (hashOf cur) else navActive s i)
            (n := (href (navLinks (doc s) ! n) = Some (hashOf cur)))"
    by (auto simp: fun_eq_iff less_Suc_eq)
  show ?case
    unfolding step Suc.IH ext
    by (simp add: updateLink_def Let_def)
qed

lemma specActiveSection_greatest:
  assumes "sorted (map offsetTop secs)" and "specActiveSection y secs = Some sec"
  shows "sec \<in> set secs \<and> offsetTop sec \<le> y + 100
       \<and> (\<forall>sec' \<in> set secs. offsetTop sec' \<le> y + 100 \<longrightarrow> offsetTop sec' \<le> offsetTop sec)"
proof -
  define qs where "qs = filter (\<lambda>sec. offsetTop sec - 100 \<le> y) secs"
  from assms(2) have ne: "qs \<noteq> []" and sec: "sec = last qs"
    by (auto simp: specActiveSection_def qs_def split: list.splits)
  from ne sec have mem: "sec \<in> set qs" by simp
  have srt: "sorted (map offsetTop qs)"
    unfolding qs_def using assms(1) by (simp add: sorted_filter)
  have top: "offsetTop sec' \<le> offsetTop sec" if "sec' \<in> set qs" for sec'
  proof -
    from that obtain i where i: "i < length qs" "qs ! i = sec'"
      by (auto simp: in_set_conv_nth)
    have "map offsetTop qs ! i \<le> map offsetTop qs ! (length qs - 1)"
      using srt i(1) by (intro sorted_nth_mono) auto
    then show ?thesis
      using i ne sec by (simp add: last_conv_nth)
  qed
  show ?thesis
    using mem top by (auto simp: qs_def)
qed

text \<open>
  Claim C2. \<open>updateActiveNavLink\<close> leaves a link active exactly when its \<^verbatim>\<open>href\<close> is \<^verbatim>\<open>#\<close>
  followed by the id of the last section, in document order, whose top offset \<open>t\<close>
  satisfies \<open>t - 100 \<le> scrollY\<close> (no other part of the state changes); when the offsets are
  ascending that section is the one with the greatest offset not above \<open>scrollY + 100\<close>.
  For offsets 0, 500, 1200 the section chosen is the second at 590 and at 1090, and the
  third at 1100.
\<close>

theorem updateActiveNavLink_last_section:
  assumes "secs = sections (doc s)" and "y = scrollY s"
    and "cur = currentSection y secs (Some [])"
  shows "updateActiveNavLink s =
           s\<lparr>navActive := (\<lambda>i. if i < length (navLinks (doc s))
                                  then href (navLinks (doc s) ! i) = Some (hashOf cur)
                                  else navActive s i)\<rparr>
       \<and> cur = (case specActiveSection y secs of None \<Rightarrow> Some [] | Some sec \<Rightarrow> sectionId sec)
       \<and> (sorted (map offsetTop secs) \<longrightarrow>
            (\<forall>sec. specActiveSection y secs = Some sec \<longrightarrow>
               sec \<in> set secs \<and> offsetTop sec \<le> y + 100
               \<and> (\<forall>sec' \<in> set secs. offsetTop sec' \<le> y + 100 \<longrightarrow>
                     offsetTop sec' \<le> offsetTop sec)))
       \<and> (map offsetTop secs = [0, 500, 1200] \<longrightarrow>
            (y = 590 \<longrightarrow> cur = sectionId (secs ! 1))
            \<and> (y = 1090 \<longrightarrow> cur = sectionId (secs ! 1))
            \<and> (y = 1100 \<longrightarrow> cur = sectionId (secs ! 2)))"
proof -
  have upd: "updateActiveNavLink s =
           s\<lparr>navActive := (\<lambda>i. if i < length (navLinks (doc s))
                                  then href (navLinks (doc s) ! i) = Some (hashOf cur)
                                  else navActive s i)\<rparr>"
    using assms by (simp add: updateActiveNavLink_def Let_def fold_updateLink)
  have spec: "cur = (case specActiveSection y secs of None \<Rightarrow> Some [] | Some sec \<Rightarrow> sectionId sec)"
    using assms(3) by (simp add: currentSection_spec)
  have great: "sorted (map offsetTop secs) \<longrightarrow>
            (\<forall>sec. specActiveSection y secs = Some sec \<longrightarrow>
               sec \<in> set secs \<and> offsetTop sec \<le> y + 100
               \<and> (\<forall>sec' \<in> set secs. offsetTop sec' \<le> y + 100 \<longrightarrow>
                     offsetTop sec' \<le> offsetTop sec))"
    using specActiveSection_greatest by blast
  have ex: "map offsetTop secs = [0, 500, 1200] \<longrightarrow>
            (y = 590 \<longrightarrow> cur = sectionId (secs ! 1))
            \<and> (y = 1090 \<longrightarrow> cur = sectionId (secs ! 1))
            \<and> (y = 1100 \<longrightarrow> cur = sectionId (secs ! 2))"
  proof
    assume "map offsetTop secs = [0, 500, 1200]"
    then obtain a b c where secs: "secs = [a, b, c]"
      and offs: "offsetTop a = 0" "offsetTop b = 500" "offsetTop c = 1200"
      by (auto simp: map_eq_Cons_conv)
    show "(y = 590 \<longrightarrow> cur = sectionId (secs ! 1))
            \<and> (y = 1090 \<longrightarrow> cur = sectionId (secs ! 1))
            \<and> (y = 1100 \<longrightarrow> cur = sectionId (secs ! 2))"
      using assms(3) by (simp add: secs offs)
  qed
  from upd spec great ex show ?thesis by blast
qed

theorem updateActiveNavLink_last_section_witness:
  "map (navActive (updateActiveNavLink (demoState\<lparr>scrollY := 590\<rparr>))) [0, 1, 2]
     = [False, True, False]
   \<and> map (navActive (updateActiveNavLink (demoState\<lparr>scrollY := 1090\<rparr>))) [0, 1, 2]
     = [False, True, False]
   \<and> map (navActive (updateActiveNavLink (demoState\<lparr>scrollY := 1100\<rparr>))) [0, 1, 2]
     = [False, False, True]"
proof -
  have d: "doc (demoState\<lparr>scrollY := y\<rparr>) = demoPage"
    "scrollY (demoState\<lparr>scrollY := y\<rparr>) = y" for y
    by (simp_all add: demoState_def)
  have offs: "map offsetTop (sections demoPage) = [0, 500, 1200]"
    by (simp add: demoPage_def)
  have second: "sectionId (sections demoPage ! 1) = Some ''about''"
    and third: "sectionId (sections demoPage ! 2) = Some ''skills''"
    by (simp_all add: demoPage_def)
  have links: "length (navLinks demoPage) = 3"
    "href (navLinks demoPage ! 0) = Some ''#hero''"
    "href (navLinks demoPage ! 1) = Some ''#about''"
    "href (navLinks demoPage ! 2) = Some ''#skills''"
    by (simp_all add: demoPage_def)
  note th = updateActiveNavLink_last_section [OF refl refl refl]
  have act: "navActive (updateActiveNavLink (demoState\<lparr>scrollY := y\<rparr>)) i =
      (if i < 3
       then href (navLinks demoPage ! i) = Some (hashOf (currentSection y (sections demoPage) (Some [])))
       else navActive demoState i)" for y i
    by (subst th [THEN conjunct1]) (simp add: d links)
  note ex = th [THEN conjunct2, THEN conjunct2, THEN conjunct2, rule_format]
  have cur: "currentSection 590 (sections demoPage) (Some []) = Some ''about''"
    "currentSection 1090 (sections demoPage) (Some []) = Some ''about''"
    "currentSection 1100 (sections demoPage) (Some []) = Some ''skills''"
    using ex [of "demoState\<lparr>scrollY := 590\<rparr>", THEN conjunct1]
      ex [of "demoState\<lparr>scrollY := 1090\<rparr>", THEN conjunct2, THEN conjunct1]
      ex [of "demoState\<lparr>scrollY := 1100\<rparr>", THEN conjunct2, THEN conjunct2]
    by (simp_all only: d offs second third refl simp_thms)
  show ?thesis
    by (simp add: act cur hashOf_def demoPage_def)
qed

section \<open>Optional blocks of a project card\<close>

lemma mapE_nth:
  "mapE f xs = Inr ys \<Longrightarrow> length ys = length xs \<and> (\<forall>i<length xs. f (xs ! i) = Inr (ys ! i))"
proof (induction xs arbitrary: ys)
  case Nil
  then show ?case by simp
next
  case (Cons x xs)
  from Cons.prems obtain y ys' where y: "f x = Inr y" and ys': "mapE f xs = Inr ys'"
    and ys: "ys = y # ys'"
    by (auto simp: bindE_eq_Inr)
  from Cons.IH [OF ys'] y ys show ?case
    by (auto simp: nth_Cons')
qed

lemma mapE_fails:
  "x \<in> set xs \<Longrightarrow> f x = Inl e \<Longrightarrow> \<exists>e'. mapE f xs = Inl e'"
proof (induction xs)
  case Nil
  then show ?case by simp
next
  case (Cons y ys)
  then show ?case
    by (cases "f y"; cases "mapE f ys") (auto simp: bindE_def)
qed

lemma template_fails:
  "Inl e \<in> set parts \<Longrightarrow> \<exists>e'. template parts = Inl e'"
  using mapE_fails [of "Inl e" parts "\<lambda>r. r" e]
  by (auto simp: template_def bindE_def)

lemma concat_nth_split:
  "i < length xs \<Longrightarrow> concat xs = concat (take i xs) @ xs ! i @ concat (drop (Suc i) xs)"
  by (metis append_take_drop_id concat.simps(2) concat_append Cons_nth_drop_Suc)

lemma mapJoin_not_array: "(\<forall>xs. v \<noteq> JArr xs) \<Longrightarrow> mapJoin f v = Inl TypeError"
  by (cases v) (simp_all add: mapJoin_def)

lemma responsibilitiesBlock_eq:
  assumes "getProp rt p ''responsibilities'' = Inr r"
  shows "responsibilitiesBlock rt lang p =
     (if truthy r then bindE (mapJoin respItem r) (\<lambda>items. Inr (responsibilitiesMarkup lang items))
      else Inr [])"
  by (simp add: responsibilitiesBlock_def assms bindE_Inr template_Cons template_Nil lit_def
      responsibilitiesMarkup_def)
     (simp add: bindE_def split: sum.splits)

lemma achievementsBlock_eq:
  assumes "getProp rt p ''achievements'' = Inr a"
  shows "achievementsBlock rt lang p =
     (if truthy a then bindE (toString a) (\<lambda>t. Inr (achievementsMarkup lang t)) else Inr [])"
  by (simp add: achievementsBlock_def assms bindE_Inr template_Cons template_Nil lit_def sub_def
      achievementsMarkup_def)
     (simp add: bindE_def split: sum.splits)

lemma markup_nonempty:
  "responsibilitiesMarkup lang items \<noteq> []" "achievementsMarkup lang t \<noteq> []"
  by (simp_all add: responsibilitiesMarkup_def achievementsMarkup_def)

lemma getProp_absent:
  "p \<noteq> JNull \<Longrightarrow> p \<noteq> JUndefined \<Longrightarrow> \<not> hasField p k \<Longrightarrow> rt p k = None \<Longrightarrow>
   getProp rt p k = Inr JUndefined"
  by (cases p) (auto simp: hasField_def runtimeMember_def split: option.splits)

lemma projectCard_positions:
  \<open>\<exists>ps. projectCard rt lang project = template ps \<and> length ps = 50
        \<and> ps ! 33 = lit ''</div>\<newline>'' \<and> ps ! 34 = lit ''\<newline>'' \<and> ps ! 35 = lit ''      ''
        \<and> ps ! 36 = responsibilitiesBlock rt lang project
        \<and> ps ! 37 = lit ''\<newline>'' \<and> ps ! 38 = lit ''\<newline>'' \<and> ps ! 39 = lit ''      ''
        \<and> ps ! 40 = achievementsBlock rt lang project
        \<and> ps ! 41 = lit ''\<newline>'' \<and> ps ! 42 = lit ''\<newline>''
        \<and> ps ! 43 = lit ''      <div class="project-technologies">\<newline>''
        \<and> ps ! 44 = lit ''        ''\<close>
  unfolding projectCard_def
  by (intro exI conjI, rule refl) simp_all

lemma projectCard_around:
  assumes "projectCard rt lang project = Inr html"
  shows "\<exists>pre post rb ab. responsibilitiesBlock rt lang project = Inr rb
           \<and> achievementsBlock rt lang project = Inr ab
           \<and> html = fragmentWith pre rb ab post"
proof -
  from projectCard_positions [of rt lang project] obtain ps where
    ps: "projectCard rt lang project = template ps" "length ps = 50"
    and at: "ps ! 33 = lit [CHR ''<'', CHR ''/'', CHR ''d'', CHR ''i'', CHR ''v'', CHR ''>'', CHR 0x0A]"
      "ps ! 34 = lit [CHR 0x0A]" "ps ! 35 = lit ''      ''"
      "ps ! 36 = responsibilitiesBlock rt lang project"
      "ps ! 37 = lit [CHR 0x0A]" "ps ! 38 = lit [CHR 0x0A]" "ps ! 39 = lit ''      ''"
      "ps ! 40 = achievementsBlock rt lang project"
      "ps ! 41 = lit [CHR 0x0A]" "ps ! 42 = lit [CHR 0x0A]"
      "ps ! 43 = lit (''      <div class='' @ [CHR 0x22] @ ''project-technologies'' @ [CHR 0x22]
                      @ ''>'' @ [CHR 0x0A])"
      "ps ! 44 = lit ''        ''"
    by auto
  from assms ps(1) have "template ps = Inr html"
    by simp
  from template_parts [OF this] obtain xs where xs: "ps = map Inr xs" "html = concat xs"
    by blast
  from xs(1) ps(2) have len: "length xs = 50"
    by simp
  have nth: "ps ! i = Inr (xs ! i)" if "i < 50" for i
    using that xs(1) len by simp
  have rb: "responsibilitiesBlock rt lang project = Inr (xs ! 36)"
    and ab: "achievementsBlock rt lang project = Inr (xs ! 40)"
    and mid: "xs ! 33 = [CHR ''<'', CHR ''/'', CHR ''d'', CHR ''i'', CHR ''v'', CHR ''>'', CHR 0x0A]"
      "xs ! 34 = [CHR 0x0A]" "xs ! 35 = ''      ''"
      "xs ! 37 = [CHR 0x0A]" "xs ! 38 = [CHR 0x0A]" "xs ! 39 = ''      ''"
      "xs ! 41 = [CHR 0x0A]" "xs ! 42 = [CHR 0x0A]"
      "xs ! 43 = ''      <div class='' @ [CHR 0x22] @ ''project-technologies'' @ [CHR 0x22]
                      @ ''>'' @ [CHR 0x0A]"
      "xs ! 44 = ''        ''"
    using at nth [of 33] nth [of 34] nth [of 35] nth [of 36] nth [of 37] nth [of 38]
      nth [of 39] nth [of 40] nth [of 41] nth [of 42] nth [of 43] nth [of 44]
    by (simp_all add: lit_def)
  have d: "drop i xs = xs ! i # drop (i + 1) xs" if "i < 50" for i
    using that len by (simp add: Cons_nth_drop_Suc)
  have "drop 33 xs = xs ! 33 # xs ! 34 # xs ! 35 # xs ! 36 # xs ! 37 # xs ! 38 # xs ! 39
          # xs ! 40 # xs ! 41 # xs ! 42 # xs ! 43 # xs ! 44 # drop 45 xs"
    using d [of 33] d [of 34] d [of 35] d [of 36] d [of 37] d [of 38] d [of 39] d [of 40]
      d [of 41] d [of 42] d [of 43] d [of 44]
    by simp
  then have "concat (drop 33 xs) =
      fragmentWith [] (xs ! 36) (xs ! 40) (concat (drop 45 xs))"
    by (simp add: mid fragmentWith_def)
  moreover have "html = concat (take 33 xs) @ concat (drop 33 xs)"
    unfolding xs(2) by (simp flip: concat_append)
  ultimately have "html = fragmentWith (concat (take 33 xs)) (xs ! 36) (xs ! 40) (concat (drop 45 xs))"
    by (simp add: fragmentWith_def)
  with rb ab show ?thesis
    by blast
qed

lemma projectCard_block_fails:
  "responsibilitiesBlock rt lang project = Inl e \<Longrightarrow> \<exists>e'. projectCard rt lang project = Inl e'"
proof -
  assume e: "responsibilitiesBlock rt lang project = Inl e"
  from projectCard_positions [of rt lang project] obtain ps where
    ps: "projectCard rt lang project = template ps" "length ps = 50"
      "ps ! 36 = responsibilitiesBlock rt lang project"
    by auto
  then have "Inl e \<in> set ps"
    using nth_mem [of 36 ps] e by simp
  from template_fails [OF this] ps(1) show ?thesis
    by simp
qed

lemma renderProjects_eq:
  "renderProjects rt s =
     (case getProp rt (appData s) ''projects'' of
        Inl e \<Rightarrow> (Some e, s)
      | Inr v \<Rightarrow>
          if ''projects-timeline'' \<notin> set (ids (doc s)) then (Some TypeError, s)
          else (case mapJoin (projectCard rt (currentLang s)) v of
                  Inl e \<Rightarrow> (Some e, s)
                | Inr html \<Rightarrow>
                    (None, s\<lparr>content := (content s)
                                ((ById ''projects-timeline'', InnerHTML) := html)\<rparr>)))"
  by (simp add: renderProjects_def readGlobals_def evalThen_def seq.simps setInnerHTML_def
      setProp_def split: sum.splits)

lemma renderProjects_cards:
  assumes "getProp rt (appData s) ''projects'' = Inr (JArr ps)"
    and "''projects-timeline'' \<in> set (ids (doc s))"
    and "mapE (projectCard rt (currentLang s)) ps = Inr cards"
  shows "renderProjects rt s =
     (None, s\<lparr>content := (content s)((ById ''projects-timeline'', InnerHTML) := concat cards)\<rparr>)"
  using assms by (simp add: renderProjects_eq mapJoin_def bindE_Inr)

lemma renderProjects_card_fails:
  assumes "getProp rt (appData s) ''projects'' = Inr (JArr ps)"
    and "p \<in> set ps" and "projectCard rt (currentLang s) p = Inl e"
  shows "fst (renderProjects rt s) \<noteq> None \<and> snd (renderProjects rt s) = s"
proof -
  from mapE_fails [of p ps "projectCard rt (currentLang s)" e] assms(2,3)
  obtain e' where "mapE (projectCard rt (currentLang s)) ps = Inl e'"
    by blast
  with assms(1) show ?thesis
    by (simp add: renderProjects_eq mapJoin_def bindE_Inl)
qed

lemma demo_members:
  "demoRuntime (JObj kvs) ''responsibilities'' = None"
  "demoRuntime (JObj kvs) ''achievements'' = None"
  by (simp_all add: demoRuntime_def objectPrototype_def)

text \<open>
  Claim C7, as stated: a block is rendered if and only if the entry has the field. An
  entry whose \<^verbatim>\<open>achievements\<close> field is the empty string has the field, and its fragment,
  as \<open>renderProjects\<close> writes it, has nothing at the place of the achievements block.
\<close>

theorem projectCard_presence_counterexample:
  "hasField demoProject ''achievements''
   \<and> achievementsBlock demoRuntime ''cn'' demoProject = Inr []
   \<and> fst (renderProjects demoRuntime (demoState\<lparr>appData := JObj [(''projects'', JArr [demoProject])]\<rparr>))
       = None
   \<and> (\<exists>pre post.
         content (snd (renderProjects demoRuntime
                    (demoState\<lparr>appData := JObj [(''projects'', JArr [demoProject])]\<rparr>)))
           (ById ''projects-timeline'', InnerHTML)
         = fragmentWith pre (responsibilitiesMarkup ''cn'' []) [] post)"
proof -
  let ?s = "demoState\<lparr>appData := JObj [(''projects'', JArr [demoProject])]\<rparr>"
  have s: "getProp demoRuntime (appData ?s) ''projects'' = Inr (JArr [demoProject])"
    "''projects-timeline'' \<in> set (ids (doc ?s))" "currentLang ?s = ''cn''"
    by (simp_all add: demoState_def demoPage_def)
  have r: "getProp demoRuntime demoProject ''responsibilities'' = Inr (JArr [])"
    and a: "getProp demoRuntime demoProject ''achievements'' = Inr (JStr [])"
    by (simp_all add: demoProject_def)
  have rb: "responsibilitiesBlock demoRuntime ''cn'' demoProject = Inr (responsibilitiesMarkup ''cn'' [])"
    by (simp add: responsibilitiesBlock_eq [OF r] mapJoin_def bindE_Inr)
  have ab: "achievementsBlock demoRuntime ''cn'' demoProject = Inr []"
    by (simp add: achievementsBlock_eq [OF a])
  have "\<exists>html. projectCard demoRuntime ''cn'' demoProject = Inr html"
    by (simp add: projectCard_def rb [unfolded demoProject_def] ab [unfolded demoProject_def]
        demoProject_def sub_def bindE_Inr template_Cons template_Nil lit_def mapJoin_def
        techTag_def)
  then obtain html where html: "projectCard demoRuntime ''cn'' demoProject = Inr html"
    by blast
  from projectCard_around [OF html] rb ab obtain pre post
    where fr: "html = fragmentWith pre (responsibilitiesMarkup ''cn'' []) [] post"
    by auto
  have "mapE (projectCard demoRuntime (currentLang ?s)) [demoProject] = Inr [html]"
    by (simp add: s(3) html bindE_Inr)
  from renderProjects_cards [OF s(1) s(2) this]
  have w: "renderProjects demoRuntime ?s =
      (None, ?s\<lparr>content := (content ?s)((ById ''projects-timeline'', InnerHTML) := html)\<rparr>)"
    by simp
  have "hasField demoProject ''achievements''"
    by (simp add: demoProject_def hasField_def)
  with ab w fr show ?thesis
    by auto
qed

text \<open>
  Claim C7, amended. On a page that has the \<^verbatim>\<open>projects-timeline\<close> element, for every entry of
  the \<^verbatim>\<open>projects\<close> list other than \<^verbatim>\<open>null\<close> (whose members cannot be read), the
  responsibilities block is
  the empty string when the value of \<^verbatim>\<open>responsibilities\<close> is falsy, and otherwise the block's
  markup around the list items; the achievements block is the empty string when the value
  of \<^verbatim>\<open>achievements\<close> is falsy, and otherwise the block's markup around the text of the
  value. An entry without the field (and for which the runtime finds no member of that
  name) has the value \<^verbatim>\<open>undefined\<close> there and so no markup for that block. A truthy
  \<^verbatim>\<open>responsibilities\<close> that is not a list makes \<open>renderProjects\<close> throw and write nothing. When
  the pass completes, it writes the fragments of the entries in order, and the fragment of
  the entry has the two blocks, as just described, between its description and its
  technologies.
\<close>

theorem renderProjects_blocks_by_truthiness:
  assumes projects: "getProp rt (appData s) ''projects'' = Inr (JArr ps)"
    and element: "''projects-timeline'' \<in> set (ids (doc s))"
    and entry: "i < length ps" "p = ps ! i"
    and lang: "lang = currentLang s"
    and r: "getProp rt p ''responsibilities'' = Inr r"
    and a: "getProp rt p ''achievements'' = Inr a"
  shows "responsibilitiesBlock rt lang p =
           (if truthy r
            then bindE (mapJoin respItem r) (\<lambda>items. Inr (responsibilitiesMarkup lang items))
            else Inr [])
       \<and> achievementsBlock rt lang p =
           (if truthy a then bindE (toString a) (\<lambda>t. Inr (achievementsMarkup lang t))
            else Inr [])
       \<and> (\<not> hasField p ''responsibilities'' \<and> rt p ''responsibilities'' = None \<longrightarrow>
            responsibilitiesBlock rt lang p = Inr [])
       \<and> (\<not> hasField p ''achievements'' \<and> rt p ''achievements'' = None \<longrightarrow>
            achievementsBlock rt lang p = Inr [])
       \<and> (truthy r \<and> (\<forall>xs. r \<noteq> JArr xs) \<longrightarrow>
            fst (renderProjects rt s) \<noteq> None \<and> snd (renderProjects rt s) = s)
       \<and> (\<forall>cards. mapE (projectCard rt lang) ps = Inr cards \<longrightarrow>
            renderProjects rt s =
              (None, s\<lparr>content := (content s)
                          ((ById ''projects-timeline'', InnerHTML) := concat cards)\<rparr>)
            \<and> concat cards = concat (take i cards) @ cards ! i @ concat (drop (Suc i) cards)
            \<and> (\<exists>pre post rb ab.
                  cards ! i = fragmentWith pre rb ab post
                  \<and> (if truthy r
                     then \<exists>items. mapJoin respItem r = Inr items
                            \<and> rb = responsibilitiesMarkup lang items \<and> rb \<noteq> []
                     else rb = [])
                  \<and> (if truthy a
                     then \<exists>t. toString a = Inr t \<and> ab = achievementsMarkup lang t \<and> ab \<noteq> []
                     else ab = [])))"
proof (intro conjI impI allI)
  show rbe: "responsibilitiesBlock rt lang p =
           (if truthy r
            then bindE (mapJoin respItem r) (\<lambda>items. Inr (responsibilitiesMarkup lang items))
            else Inr [])"
    by (rule responsibilitiesBlock_eq [OF r])
  show abe: "achievementsBlock rt lang p =
           (if truthy a then bindE (toString a) (\<lambda>t. Inr (achievementsMarkup lang t))
            else Inr [])"
    by (rule achievementsBlock_eq [OF a])
  have nonnull: "p \<noteq> JNull" "p \<noteq> JUndefined"
    using r by auto
  {
    assume "\<not> hasField p ''responsibilities'' \<and> rt p ''responsibilities'' = None"
    with nonnull r have "r = JUndefined"
      using getProp_absent [of p "''responsibilities''" rt] by simp
    then show "responsibilitiesBlock rt lang p = Inr []"
      by (simp add: rbe)
  }
  {
    assume "\<not> hasField p ''achievements'' \<and> rt p ''achievements'' = None"
    with nonnull a have "a = JUndefined"
      using getProp_absent [of p "''achievements''" rt] by simp
    then show "achievementsBlock rt lang p = Inr []"
      by (simp add: abe)
  }
  have mem: "p \<in> set ps"
    using entry by simp
  {
    assume odd: "truthy r \<and> (\<forall>xs. r \<noteq> JArr xs)"
    then have "responsibilitiesBlock rt lang p = Inl TypeError"
      by (simp add: rbe mapJoin_not_array bindE_Inl)
    from projectCard_block_fails [OF this] obtain e'
      where "projectCard rt (currentLang s) p = Inl e'"
      unfolding lang by blast
    from renderProjects_card_fails [OF projects mem this]
    show "fst (renderProjects rt s) \<noteq> None" and "snd (renderProjects rt s) = s"
      by simp_all
  }
  fix cards
  assume cards: "mapE (projectCard rt lang) ps = Inr cards"
  then show "renderProjects rt s =
      (None, s\<lparr>content := (content s)((ById ''projects-timeline'', InnerHTML) := concat cards)\<rparr>)"
    unfolding lang by (rule renderProjects_cards [OF projects element])
  from mapE_nth [OF cards] entry have len: "i < length cards"
    and card: "projectCard rt lang p = Inr (cards ! i)"
    by simp_all
  from len show "concat cards = concat (take i cards) @ cards ! i @ concat (drop (Suc i) cards)"
    by (rule concat_nth_split)
  from projectCard_around [OF card] obtain pre post rb ab
    where rb: "responsibilitiesBlock rt lang p = Inr rb"
      and ab: "achievementsBlock rt lang p = Inr ab"
      and fr: "cards ! i = fragmentWith pre rb ab post"
    by blast
  have "if truthy r
        then \<exists>items. mapJoin respItem r = Inr items
               \<and> rb = responsibilitiesMarkup lang items \<and> rb \<noteq> []
        else rb = []"
    using rb by (auto simp: rbe bindE_eq_Inr markup_nonempty split: if_splits)
  moreover have "if truthy a
        then \<exists>t. toString a = Inr t \<and> ab = achievementsMarkup lang t \<and> ab \<noteq> []
        else ab = []"
    using ab by (auto simp: abe bindE_eq_Inr markup_nonempty split: if_splits)
  ultimately show "\<exists>pre post rb ab.
      cards ! i = fragmentWith pre rb ab post
      \<and> (if truthy r
         then \<exists>items. mapJoin respItem r = Inr items
                \<and> rb = responsibilitiesMarkup lang items \<and> rb \<noteq> []
         else rb = [])
      \<and> (if truthy a
         then \<exists>t. toString a = Inr t \<and> ab = achievementsMarkup lang t \<and> ab \<noteq> []
         else ab = [])"
    using fr by blast
qed

theorem renderProjects_blocks_by_truthiness_witness:
  "fst (renderProjects demoRuntime
         (demoState\<lparr>appData := JObj [(''projects'', JArr [demoProjectFull, demoProjectBare])]\<rparr>))
     = None
   \<and> (\<exists>before pre post after.
         content (snd (renderProjects demoRuntime
           (demoState\<lparr>appData := JObj [(''projects'', JArr [demoProjectFull, demoProjectBare])]\<rparr>)))
           (ById ''projects-timeline'', InnerHTML)
         = before
           @ fragmentWith pre (responsibilitiesMarkup ''cn'' ''<li>Build</li><li>Test</li>'')
               (achievementsMarkup ''cn'' ''Shipped'') post
           @ after)
   \<and> (\<exists>before pre post after.
         content (snd (renderProjects demoRuntime
           (demoState\<lparr>appData := JObj [(''projects'', JArr [demoProjectFull, demoProjectBare])]\<rparr>)))
           (ById ''projects-timeline'', InnerHTML)
         = before @ fragmentWith pre [] [] post @ after)
   \<and> fst (renderProjects demoRuntime
         (demoState\<lparr>appData := JObj [(''projects'', JArr [demoProjectOdd])]\<rparr>)) \<noteq> None
   \<and> snd (renderProjects demoRuntime
         (demoState\<lparr>appData := JObj [(''projects'', JArr [demoProjectOdd])]\<rparr>))
     = demoState\<lparr>appData := JObj [(''projects'', JArr [demoProjectOdd])]\<rparr>"
proof -
  let ?ps = "[demoProjectFull, demoProjectBare]"
  let ?s = "demoState\<lparr>appData := JObj [(''projects'', JArr ?ps)]\<rparr>"
  let ?o = "demoState\<lparr>appData := JObj [(''projects'', JArr [demoProjectOdd])]\<rparr>"
  let ?slot = "(ById ''projects-timeline'', InnerHTML)"
  have s: "getProp demoRuntime (appData ?s) ''projects'' = Inr (JArr ?ps)"
    "''projects-timeline'' \<in> set (ids (doc ?s))" "''cn'' = currentLang ?s"
    and o: "getProp demoRuntime (appData ?o) ''projects'' = Inr (JArr [demoProjectOdd])"
    "''projects-timeline'' \<in> set (ids (doc ?o))" "''cn'' = currentLang ?o"
    by (simp_all add: demoState_def demoPage_def)
  have full: "getProp demoRuntime demoProjectFull ''responsibilities''
                = Inr (JArr [JStr ''Build'', JStr ''Test''])"
    "getProp demoRuntime demoProjectFull ''achievements'' = Inr (JStr ''Shipped'')"
    by (simp_all add: demoProjectFull_def)
  have bare: "getProp demoRuntime demoProjectBare ''responsibilities'' = Inr JUndefined"
    "getProp demoRuntime demoProjectBare ''achievements'' = Inr JUndefined"
    "\<not> hasField demoProjectBare ''responsibilities''"
    "demoRuntime demoProjectBare ''responsibilities'' = None"
    by (simp_all add: demoProjectBare_def hasField_def runtimeMember_def demo_members)
  have odd: "getProp demoRuntime demoProjectOdd ''responsibilities'' = Inr (JStr ''everything'')"
    "getProp demoRuntime demoProjectOdd ''achievements'' = Inr JUndefined"
    by (simp_all add: demoProjectOdd_def runtimeMember_def demo_members)
  have items: "mapJoin respItem (JArr [JStr ''Build'', JStr ''Test''])
                = Inr ''<li>Build</li><li>Test</li>''"
    by (simp add: mapJoin_def respItem_def sub_def bindE_Inr template_Cons template_Nil lit_def)
  have "\<exists>cards. mapE (projectCard demoRuntime ''cn'') ?ps = Inr cards"
    by (simp add: projectCard_def responsibilitiesBlock_eq [OF full(1)]
        achievementsBlock_eq [OF full(2)] responsibilitiesBlock_eq [OF bare(1)]
        achievementsBlock_eq [OF bare(2)] items)
       (simp add: demoProjectFull_def demoProjectBare_def demoRuntime_def objectPrototype_def
        runtimeMember_def sub_def bindE_Inr template_Cons template_Nil lit_def mapJoin_def
        techTag_def)
  then obtain cards where cards: "mapE (projectCard demoRuntime ''cn'') ?ps = Inr cards"
    by blast
  from mapE_nth [OF cards] have len: "length cards = 2"
    by simp
  have e0: "0 < length ?ps" "demoProjectFull = ?ps ! 0"
    and e1: "1 < length ?ps" "demoProjectBare = ?ps ! 1"
    and eo: "0 < length [demoProjectOdd]" "demoProjectOdd = [demoProjectOdd] ! 0"
    by simp_all
  note th = renderProjects_blocks_by_truthiness
  note t0 = th [OF s(1) s(2) e0 s(3) full, THEN conjunct2, THEN conjunct2, THEN conjunct2,
      THEN conjunct2, THEN conjunct2, rule_format, OF cards]
  note t1 = th [OF s(1) s(2) e1 s(3) bare(1,2), THEN conjunct2, THEN conjunct2, THEN conjunct2,
      THEN conjunct2, THEN conjunct2, rule_format, OF cards]
  note t2 = th [OF o(1) o(2) eo o(3) odd, THEN conjunct2, THEN conjunct2, THEN conjunct2,
      THEN conjunct2, THEN conjunct1, rule_format]
  from t0 have w: "renderProjects demoRuntime ?s =
      (None, ?s\<lparr>content := (content ?s)(?slot := concat cards)\<rparr>)"
    by blast
  from t0 items obtain pre0 post0 where f0: "cards ! 0 =
      fragmentWith pre0 (responsibilitiesMarkup ''cn'' ''<li>Build</li><li>Test</li>'')
        (achievementsMarkup ''cn'' ''Shipped'') post0"
    by auto
  from t1 obtain pre1 post1 where f1: "cards ! 1 = fragmentWith pre1 [] [] post1"
    by auto
  have c0: "concat cards = [] @ cards ! 0 @ concat (drop 1 cards)"
    and c1: "concat cards = concat (take 1 cards) @ cards ! 1 @ []"
    using concat_nth_split [of 0 cards] concat_nth_split [of "Suc 0" cards] len
    by (simp_all add: numeral_2_eq_2)
  have written: "content (snd (renderProjects demoRuntime ?s)) ?slot = concat cards"
    by (simp add: w)
  have a: "\<exists>before pre post after. content (snd (renderProjects demoRuntime ?s)) ?slot
      = before @ fragmentWith pre (responsibilitiesMarkup ''cn'' ''<li>Build</li><li>Test</li>'')
               (achievementsMarkup ''cn'' ''Shipped'') post @ after"
    unfolding written by (subst c0, subst f0) blast
  have b: "\<exists>before pre post after. content (snd (renderProjects demoRuntime ?s)) ?slot
      = before @ fragmentWith pre [] [] post @ after"
    unfolding written by (subst c1, subst f1) blast
  have "truthy (JStr ''everything'') \<and> (\<forall>xs. JStr ''everything'' \<noteq> JArr xs)"
    by simp
  from t2 [OF this] have c: "fst (renderProjects demoRuntime ?o) \<noteq> None"
    "snd (renderProjects demoRuntime ?o) = ?o"
    by simp_all
  from w a b c show ?thesis
    by simp
qed



section \<open>Footprints of the render functions\<close>

lemma overwrite_empty: "overwrite c Map.empty = c"
  by (simp add: overwrite_def)

lemma overwrite_single: "overwrite c [k \<mapsto> v] = c(k := v)"
  by (auto simp: overwrite_def fun_eq_iff)

lemma overwrite_add: "overwrite (overwrite c m) m' = overwrite c (m ++ m')"
  by (auto simp: overwrite_def fun_eq_iff map_add_def split: option.splits)

lemma overwrite_absorb: "dom m' \<subseteq> dom m \<Longrightarrow> overwrite (overwrite (overwrite c m) m') m = overwrite c m"
  by (auto simp: overwrite_def fun_eq_iff split: option.splits)

lemma overwrite_outside: "t \<notin> dom m \<Longrightarrow> overwrite c m t = c t"
  by (auto simp: overwrite_def split: option.splits)

lemma performs_skip:
  "(\<And>s. c s = (r, s)) \<Longrightarrow> performs d l pg c r Map.empty []"
  by (simp add: performs_def overwrite_empty)

lemma footprint_fail:
  "(\<And>s. c s = (Some e, s)) \<Longrightarrow> footprint d l pg c D"
  unfolding footprint_def
  by (rule exI [of _ "Some e"], rule exI [of _ Map.empty], rule exI [of _ "[]"])
     (simp add: performs_skip)

lemma footprint_setProp: "footprint d l pg (setProp n p e) {(n, p)}"
proof (cases "present pg n")
  case False
  then have "performs d l pg (setProp n p e) (Some TypeError) Map.empty []"
    by (simp add: performs_def setProp_def overwrite_empty)
  then show ?thesis
    unfolding footprint_def by (intro exI conjI) (assumption, simp_all)
next
  case True
  show ?thesis
  proof (cases e)
    case (Inl x)
    with True have "performs d l pg (setProp n p e) (Some x) Map.empty []"
      by (simp add: performs_def setProp_def overwrite_empty)
    then show ?thesis
      unfolding footprint_def by (intro exI conjI) (assumption, simp_all)
  next
    case (Inr v)
    with True have "performs d l pg (setProp n p e) None [(n, p) \<mapsto> v] []"
      by (simp add: performs_def setProp_def overwrite_single)
    then show ?thesis
      unfolding footprint_def by (intro exI conjI) (assumption, simp_all)
  qed
qed

lemma footprint_setTextContent: "footprint d l pg (setTextContent n e) {(n, TextContent)}"
  unfolding setTextContent_def by (rule footprint_setProp)

lemma footprint_setAttr: "footprint d l pg (setAttr n p e) {(n, p)}"
  unfolding setAttr_def by (rule footprint_setProp)

lemma footprint_setInnerHTML: "footprint d l pg (setInnerHTML n e) {(n, InnerHTML)}"
  unfolding setInnerHTML_def by (rule footprint_setProp)

lemma footprint_setTimeout: "footprint d l pg (setTimeout t) {}"
proof -
  have "performs d l pg (setTimeout t) None Map.empty [t]"
    by (simp add: performs_def setTimeout_def overwrite_empty)
  then show ?thesis
    unfolding footprint_def by (intro exI conjI) (assumption, simp_all)
qed

lemma footprint_seq_Nil: "footprint d l pg (seq []) {}"
proof -
  have "performs d l pg (seq []) None Map.empty []"
    by (simp add: performs_def overwrite_empty seq.simps)
  then show ?thesis
    unfolding footprint_def by (intro exI conjI) (assumption, simp_all)
qed

lemma performs_seq_Cons:
  assumes c: "performs d l pg c None m ts" and cs: "performs d l pg (seq cs) r m' ts'"
  shows "performs d l pg (seq (c # cs)) r (m ++ m') (ts @ ts')"
  unfolding performs_def
proof (intro allI impI)
  fix s :: state
  assume s: "appData s = d \<and> currentLang s = l \<and> doc s = pg"
  let ?s1 = "s\<lparr>content := overwrite (content s) m, timers := timers s @ ts\<rparr>"
  from c s have 1: "c s = (None, ?s1)"
    by (simp add: performs_def)
  from s have "appData ?s1 = d \<and> currentLang ?s1 = l \<and> doc ?s1 = pg"
    by simp
  with cs have 2: "seq cs ?s1 =
      (r, ?s1\<lparr>content := overwrite (content ?s1) m', timers := timers ?s1 @ ts'\<rparr>)"
    unfolding performs_def by blast
  show "seq (c # cs) s =
      (r, s\<lparr>content := overwrite (content s) (m ++ m'), timers := timers s @ ts @ ts'\<rparr>)"
    by (simp add: 1 2 overwrite_add seq.simps)
qed

lemma performs_seq_Cons_fail:
  assumes c: "performs d l pg c (Some e) m ts"
  shows "performs d l pg (seq (c # cs)) (Some e) m ts"
  using c by (simp add: performs_def seq.simps)

lemma footprint_seq_Cons:
  assumes "footprint d l pg c D" and "footprint d l pg (seq cs) D'"
  shows "footprint d l pg (seq (c # cs)) (D \<union> D')"
proof -
  from assms(1) obtain r m ts where c: "performs d l pg c r m ts" "dom m \<subseteq> D"
    "r = None \<longrightarrow> dom m = D"
    unfolding footprint_def by blast
  from assms(2) obtain r' m' ts' where cs: "performs d l pg (seq cs) r' m' ts'" "dom m' \<subseteq> D'"
    "r' = None \<longrightarrow> dom m' = D'"
    unfolding footprint_def by blast
  show ?thesis
  proof (cases r)
    case None
    with c(1) cs(1) have "performs d l pg (seq (c # cs)) r' (m ++ m') (ts @ ts')"
      by (simp add: performs_seq_Cons)
    moreover have "dom (m ++ m') \<subseteq> D \<union> D'"
      using c(2) cs(2) by auto
    moreover have "r' = None \<longrightarrow> dom (m ++ m') = D \<union> D'"
      using c(3) cs(3) None by auto
    ultimately show ?thesis
      unfolding footprint_def by blast
  next
    case (Some e)
    with c(1) have "performs d l pg (seq (c # cs)) (Some e) m ts"
      by (simp add: performs_seq_Cons_fail)
    moreover have "dom m \<subseteq> D \<union> D'"
      using c(2) by auto
    ultimately show ?thesis
      unfolding footprint_def by blast
  qed
qed

lemma footprint_if:
  assumes "b \<Longrightarrow> footprint d l pg c D" and "\<not> b \<Longrightarrow> footprint d l pg c' D'"
  shows "footprint d l pg (if b then c else c') (if b then D else D')"
  using assms by (cases b) simp_all

lemma footprint_evalThen:
  assumes "\<And>v. e = Inr v \<Longrightarrow> footprint d l pg (k v) D"
  shows "footprint d l pg (evalThen e k) D"
proof (cases e)
  case (Inl x)
  then have "\<And>s. evalThen e k s = (Some x, s)"
    by (simp add: evalThen_def)
  then show ?thesis by (rule footprint_fail)
next
  case (Inr v)
  then have "evalThen e k = k v"
    by (simp add: evalThen_def fun_eq_iff)
  with assms [OF Inr] show ?thesis by simp
qed

lemma footprint_readGlobals:
  assumes "footprint d l pg (body d l pg) D"
  shows "footprint d l pg (readGlobals body) D"
proof -
  from assms obtain r m ts where b: "performs d l pg (body d l pg) r m ts" "dom m \<subseteq> D"
    "r = None \<longrightarrow> dom m = D"
    unfolding footprint_def by blast
  from b(1) have "performs d l pg (readGlobals body) r m ts"
    by (simp add: performs_def readGlobals_def)
  with b(2,3) show ?thesis
    unfolding footprint_def by blast
qed

lemma footprint_eq: "footprint d l pg c D' \<Longrightarrow> D' = D \<Longrightarrow> footprint d l pg c D"
  by simp

lemma footprint_seq_map:
  assumes "\<And>x. x \<in> set xs \<Longrightarrow> footprint d l pg (f x) (D x)"
  shows "footprint d l pg (seq (map f xs)) (\<Union>x\<in>set xs. D x)"
  using assms
proof (induction xs)
  case Nil
  have "footprint d l pg (seq []) {}"
    by (rule footprint_seq_Nil)
  then show ?case by simp
next
  case (Cons x xs)
  have "footprint d l pg (seq (f x # map f xs)) (D x \<union> (\<Union>x\<in>set xs. D x))"
    by (rule footprint_seq_Cons) (simp_all add: Cons)
  then show ?case by simp
qed

lemmas footprint_rules =
  footprint_readGlobals footprint_evalThen footprint_seq_Cons footprint_seq_Nil footprint_if
  footprint_setTextContent footprint_setAttr footprint_setInnerHTML footprint_setTimeout

lemma footprint_renderNavLink:
  "footprint d l pg (renderNavLink rt nav link i)
     (if (case getProp rt nav (navKey link) of Inl e \<Rightarrow> False | Inr v \<Rightarrow> truthy v)
      then {(NavLink i, TextContent)} else {})"
proof (cases "getProp rt nav (navKey link)")
  case (Inl e)
  then have "\<And>s. renderNavLink rt nav link i s = (Some e, s)"
    by (simp add: renderNavLink_def evalThen_def)
  then show ?thesis by (rule footprint_fail)
next
  case (Inr v)
  then have eq: "renderNavLink rt nav link i =
      (if truthy v then setTextContent (NavLink i) (Inr v) else seq [])"
    by (simp add: renderNavLink_def evalThen_def fun_eq_iff)
  show ?thesis
    unfolding eq using Inr
    by (auto intro: footprint_setTextContent footprint_seq_Nil)
qed

lemma footprint_renderNav: "footprint d l pg (renderNav rt) (navTargets rt d pg)"
  unfolding renderNav_def
proof (rule footprint_readGlobals, rule footprint_evalThen)
  fix nav
  assume nav: "getProp rt d ''nav'' = Inr nav"
  let ?D = "\<lambda>i. if (case getProp rt nav (navKey (navLinks pg ! i)) of Inl e \<Rightarrow> False | Inr v \<Rightarrow> truthy v)
                then {(NavLink i, TextContent)} else {}"
  have "footprint d l pg
          (seq (map (\<lambda>i. renderNavLink rt nav (navLinks pg ! i) i) [0..<length (navLinks pg)]))
          (\<Union>i\<in>set [0..<length (navLinks pg)]. ?D i)"
    by (rule footprint_seq_map) (rule footprint_renderNavLink)
  moreover have "(\<Union>i\<in>set [0..<length (navLinks pg)]. ?D i) = navTargets rt d pg"
    by (auto simp: navTargets_def navLabelled_def nav split: if_splits)
  ultimately show "footprint d l pg
          (seq (map (\<lambda>i. renderNavLink rt nav (navLinks pg ! i) i) [0..<length (navLinks pg)]))
          (navTargets rt d pg)"
    by simp
qed

lemma footprint_renderRest:
  "footprint d l pg
     (seq [renderHero rt, renderAbout rt, renderSkills rt, renderProjects rt,
           renderEducation rt, renderContact rt, renderFooter rt])
     (fixedTargets pg)"
  unfolding renderHero_def renderAbout_def renderSkills_def renderProjects_def
    renderEducation_def renderContact_def renderFooter_def
  apply (rule footprint_eq)
   apply (rule footprint_rules)+
  apply (auto simp: fixedTargets_def)
  done

lemma footprint_renderAll: "footprint d l pg (renderAll rt) (navTargets rt d pg \<union> fixedTargets pg)"
  unfolding renderAll_def
  by (rule footprint_seq_Cons) (rule footprint_renderNav, rule footprint_renderRest)

section \<open>Rendering twice\<close>

lemma overwrite_twice: "overwrite (overwrite c m) m = overwrite c m"
  by (auto simp: overwrite_def fun_eq_iff split: option.splits)

lemma renderAll_performs:
  "\<exists>r m ts. performs (appData s) (currentLang s) (doc s) (renderAll rt) r m ts
      \<and> dom m \<subseteq> navTargets rt (appData s) (doc s) \<union> fixedTargets (doc s)
      \<and> (r = None \<longrightarrow> dom m = navTargets rt (appData s) (doc s) \<union> fixedTargets (doc s))"
  using footprint_renderAll [of "appData s" "currentLang s" "doc s" rt]
  unfolding footprint_def .

text \<open>
  Claim C4. A second \<open>renderAll\<close> right after the first, with the data set and the locale
  code untouched in between, ends with the same outcome and leaves every written place of
  the document with the content the first pass gave it; the two states differ at most in
  the queue of started timers.
\<close>

theorem renderAll_idempotent:
  "content (snd (renderAll rt (snd (renderAll rt s)))) = content (snd (renderAll rt s))
   \<and> fst (renderAll rt (snd (renderAll rt s))) = fst (renderAll rt s)
   \<and> (\<exists>ts. snd (renderAll rt (snd (renderAll rt s))) = (snd (renderAll rt s))\<lparr>timers := ts\<rparr>)"
proof -
  from renderAll_performs [of s] obtain r m ts
    where p: "performs (appData s) (currentLang s) (doc s) (renderAll rt) r m ts"
    by blast
  let ?s1 = "s\<lparr>content := overwrite (content s) m, timers := timers s @ ts\<rparr>"
  from p have 1: "renderAll rt s = (r, ?s1)"
    by (simp add: performs_def)
  have "appData ?s1 = appData s \<and> currentLang ?s1 = currentLang s \<and> doc ?s1 = doc s"
    by simp
  with p have 2: "renderAll rt ?s1 =
      (r, ?s1\<lparr>content := overwrite (content ?s1) m, timers := timers ?s1 @ ts\<rparr>)"
    unfolding performs_def by blast
  have "snd (renderAll rt (snd (renderAll rt s))) = (snd (renderAll rt s))\<lparr>timers := timers ?s1 @ ts\<rparr>"
    by (simp add: 1 2 overwrite_twice)
  then have "\<exists>ts. snd (renderAll rt (snd (renderAll rt s))) = (snd (renderAll rt s))\<lparr>timers := ts\<rparr>"
    by (rule exI)
  moreover have "content (snd (renderAll rt (snd (renderAll rt s)))) = content (snd (renderAll rt s))"
    by (simp add: 1 2 overwrite_twice)
  moreover have "fst (renderAll rt (snd (renderAll rt s))) = fst (renderAll rt s)"
    by (simp add: 1 2)
  ultimately show ?thesis by blast
qed

section \<open>The navigation labels\<close>

lemma getProp_object: "getProp rt (JObj kvs) key = Inr (navLabel rt kvs key)"
  by (simp add: navLabel_def)

lemma navContent_0: "navContent rt kvs pg 0 c = c"
  by (auto simp: navContent_def fun_eq_iff split: node.splits property.splits)

lemma navContent_Suc_write:
  "truthy (navLabel rt kvs (navKey (navLinks pg ! n))) \<Longrightarrow>
   toString (navLabel rt kvs (navKey (navLinks pg ! n))) = Inr t \<Longrightarrow>
   (navContent rt kvs pg n c)((NavLink n, TextContent) := t) = navContent rt kvs pg (Suc n) c"
  by (auto simp: navContent_def fun_eq_iff less_Suc_eq split: node.splits property.splits)

lemma navContent_Suc_keep:
  "\<not> truthy (navLabel rt kvs (navKey (navLinks pg ! n))) \<Longrightarrow>
   navContent rt kvs pg n c = navContent rt kvs pg (Suc n) c"
  by (auto simp: navContent_def fun_eq_iff less_Suc_eq split: node.splits property.splits)

lemma textOf_truthy: "truthy v \<Longrightarrow> textOf v = toString v"
  by (cases v) (simp_all add: textOf_def)

lemma renderNavLink_object:
  assumes "i < length (navLinks (doc s))"
  shows "renderNavLink rt (JObj kvs) link i s =
     (if truthy (navLabel rt kvs (navKey link))
      then (case toString (navLabel rt kvs (navKey link)) of
              Inl e \<Rightarrow> (Some e, s)
            | Inr t \<Rightarrow> (None, s\<lparr>content := (content s)((NavLink i, TextContent) := t)\<rparr>))
      else (None, s))"
  using assms
  unfolding renderNavLink_def Let_def getProp_object
  by (simp add: evalThen_def setTextContent_def setProp_def bindE_Inr
      textOf_truthy seq.simps split: sum.splits)

lemma renderNav_links_upto:
  assumes "doc s = pg" and "n \<le> length (navLinks pg)"
    and "\<forall>j<n. truthy (navLabel rt kvs (navKey (navLinks pg ! j))) \<longrightarrow>
            (\<exists>t. toString (navLabel rt kvs (navKey (navLinks pg ! j))) = Inr t)"
  shows "seq (map (\<lambda>i. renderNavLink rt (JObj kvs) (navLinks pg ! i) i) [0..<n]) s =
           (None, s\<lparr>content := navContent rt kvs pg n (content s)\<rparr>)"
  using assms(2,3)
proof (induction n)
  case 0
  show ?case by (simp add: seq.simps navContent_0)
next
  case (Suc n)
  let ?f = "\<lambda>i. renderNavLink rt (JObj kvs) (navLinks pg ! i) i"
  let ?s' = "s\<lparr>content := navContent rt kvs pg n (content s)\<rparr>"
  let ?v = "navLabel rt kvs (navKey (navLinks pg ! n))"
  from Suc have IH: "seq (map ?f [0..<n]) s = (None, ?s')"
    by simp
  have n: "n < length (navLinks (doc ?s'))"
    using Suc.prems assms(1) by simp
  have step: "seq (map ?f [0..<Suc n]) s = ?f n ?s'"
    by (simp add: seq_append IH seq.simps split: prod.splits option.splits)
  show ?case
  proof (cases "truthy ?v")
    case False
    then show ?thesis
      unfolding step renderNavLink_object [OF n]
      using navContent_Suc_keep [of rt kvs pg n "content s"] by simp
  next
    case True
    with Suc.prems(2) obtain t where t: "toString ?v = Inr t"
      by auto
    with True show ?thesis
      unfolding step renderNavLink_object [OF n]
      using navContent_Suc_write [of rt kvs pg n t "content s"] by simp
  qed
qed

lemma renderNav_object:
  assumes "getProp rt (appData s) ''nav'' = Inr (JObj kvs)"
    and "\<forall>j<length (navLinks (doc s)).
            truthy (navLabel rt kvs (navKey (navLinks (doc s) ! j))) \<longrightarrow>
            (\<exists>t. toString (navLabel rt kvs (navKey (navLinks (doc s) ! j))) = Inr t)"
  shows "renderNav rt s =
     (None, s\<lparr>content := navContent rt kvs (doc s) (length (navLinks (doc s))) (content s)\<rparr>)"
  using assms renderNav_links_upto [of s "doc s" "length (navLinks (doc s))" rt kvs]
  by (simp add: renderNav_def readGlobals_def evalThen_def)





section \<open>The language toggle\<close>

lemma loadLanguage_fst_state:
  "fst (loadLanguage net L s) = fst (loadLanguage net L s')"
  by (simp add: loadLanguage_cases split: sum.splits)

lemma toggleLanguage_failed:
  assumes "fst (loadLanguage net (if currentLang s = ''cn'' then ''en'' else ''cn'') s) = Some e"
  shows "toggleLanguage rt net s =
           s\<lparr>toggleDisabled := False, toggleOpacity := ''1'',
             consoleErrors := consoleErrors s @ [(''Failed to switch language:'', e)],
             alerts := alerts s @ [failureNotice]\<rparr>"
proof -
  let ?L = "if currentLang s = ''cn'' then ''en'' else ''cn''"
  let ?s1 = "s\<lparr>toggleDisabled := True, toggleOpacity := ''0.5''\<rparr>"
  from assms have "fst (loadLanguage net ?L ?s1) = Some e"
    using loadLanguage_fst_state [of net ?L ?s1 s] by simp
  moreover from this have "snd (loadLanguage net ?L ?s1) = ?s1"
    using loadLanguage_failure_state [of net ?L ?s1] by simp
  ultimately have "loadLanguage net ?L ?s1 = (Some e, ?s1)"
    by (simp add: prod_eq_iff)
  then show ?thesis
    by (simp add: toggleLanguage_def Let_def seq.simps)
qed

text \<open>
  Claim C6. After \<open>toggleLanguage\<close> the toggle control is enabled again (and at full
  opacity) whatever happened in between. When the load fails, the call logs the error and
  raises the failure notice, and changes nothing else: the active locale code, the data set
  and all written content are as before, and no render pass has run (no timer started).
\<close>

theorem toggleLanguage_reenables:
  "toggleDisabled (toggleLanguage rt net s) = False
   \<and> toggleOpacity (toggleLanguage rt net s) = ''1''
   \<and> (fst (loadLanguage net (if currentLang s = ''cn'' then ''en'' else ''cn'') s) = Some e \<longrightarrow>
        alerts (toggleLanguage rt net s) = alerts s @ [failureNotice]
        \<and> currentLang (toggleLanguage rt net s) = currentLang s
        \<and> appData (toggleLanguage rt net s) = appData s
        \<and> content (toggleLanguage rt net s) = content s
        \<and> toggleText (toggleLanguage rt net s) = toggleText s
        \<and> timers (toggleLanguage rt net s) = timers s
        \<and> toggleLanguage rt net s =
            s\<lparr>toggleDisabled := False, toggleOpacity := ''1'',
              consoleErrors := consoleErrors s @ [(''Failed to switch language:'', e)],
              alerts := alerts s @ [failureNotice]\<rparr>)"
proof (intro conjI impI)
  show "toggleDisabled (toggleLanguage rt net s) = False"
    by (simp add: toggleLanguage_def Let_def split: prod.splits)
  show "toggleOpacity (toggleLanguage rt net s) = ''1''"
    by (simp add: toggleLanguage_def Let_def split: prod.splits)
qed (simp_all add: toggleLanguage_failed)

theorem toggleLanguage_reenables_witness:
  "fst (loadLanguage netDown ''en'' demoState) = Some (Error ''Failed to load _data/data-en.json'')
   \<and> toggleLanguage demoRuntime netDown demoState =
       demoState\<lparr>consoleErrors :=
                   [(''Failed to switch language:'', Error ''Failed to load _data/data-en.json'')],
                 alerts := [failureNotice]\<rparr>
   \<and> currentLang (toggleLanguage demoRuntime netDown demoState) = ''cn''
   \<and> content (toggleLanguage demoRuntime netDown demoState) = content demoState
   \<and> toggleDisabled (toggleLanguage demoRuntime netDown demoState) = False"
proof -
  have cur: "currentLang demoState = ''cn''" and dis: "toggleDisabled demoState = False"
    by (simp_all add: demoState_def)
  have f: "fst (loadLanguage netDown (if currentLang demoState = ''cn'' then ''en'' else ''cn'')
             demoState) = Some (Error ''Failed to load _data/data-en.json'')"
    by (simp add: cur loadLanguage_cases netDown_def dataFileOf_def)
  have init: "demoState\<lparr>toggleDisabled := False, toggleOpacity := ''1'',
                consoleErrors := consoleErrors demoState @ [x], alerts := alerts demoState @ [y]\<rparr>
              = demoState\<lparr>consoleErrors := [x], alerts := [y]\<rparr>" for x y
    by (simp add: demoState_def)
  show ?thesis
    using toggleLanguage_reenables [of demoRuntime netDown demoState "Error ''Failed to load _data/data-en.json''"]
      f cur dis
    by (simp add: init)
qed

section \<open>Toggling there and back\<close>

lemma toggleLanguage_loaded:
  assumes net: "net (dataFileOf L') = Inr resp" "ok resp" "json resp = Inr d'"
    and L': "L' = (if currentLang s = ''cn'' then ''en'' else ''cn'')"
    and p: "performs d' L' (doc s) (renderAll rt) r m ts"
  shows "content (toggleLanguage rt net s) = overwrite (content s) m
       \<and> appData (toggleLanguage rt net s) = d'
       \<and> currentLang (toggleLanguage rt net s) = L'
       \<and> doc (toggleLanguage rt net s) = doc s
       \<and> (r = None \<and> hasLangText (doc s) \<longrightarrow> alerts (toggleLanguage rt net s) = alerts s)"
proof -
  let ?s1 = "s\<lparr>toggleDisabled := True, toggleOpacity := ''0.5''\<rparr>"
  let ?s2 = "?s1\<lparr>appData := d', currentLang := L',
                  docLang := (if L' = ''cn'' then ''zh-CN'' else ''en'')\<rparr>"
  let ?s3 = "?s2\<lparr>content := overwrite (content ?s2) m, timers := timers ?s2 @ ts\<rparr>"
  let ?t = "if L' = ''cn'' then ''EN'' else zhChinese"
  have load: "loadLanguage net L' ?s1 = (None, ?s2)"
    by (simp add: loadLanguage_cases net)
  have "appData ?s2 = d' \<and> currentLang ?s2 = L' \<and> doc ?s2 = doc s"
    by simp
  with p have rend: "renderAll rt ?s2 = (r, ?s3)"
    unfolding performs_def by blast
  have run: "seq [loadLanguage net L', renderAll rt, setToggleText ?t] ?s1 =
      (case r of None \<Rightarrow> setToggleText ?t ?s3 | Some e \<Rightarrow> (Some e, ?s3))"
    by (simp add: seq.simps load rend split: option.splits prod.splits)
  have unfold: "toggleLanguage rt net s =
      (let (r', s2) = seq [loadLanguage net L', renderAll rt, setToggleText ?t] ?s1;
           s3 = (case r' of
                   None \<Rightarrow> s2
                 | Some e \<Rightarrow>
                     s2\<lparr>consoleErrors := consoleErrors s2 @ [(''Failed to switch language:'', e)],
                        alerts := alerts s2 @ [failureNotice]\<rparr>)
       in s3\<lparr>toggleDisabled := False, toggleOpacity := ''1''\<rparr>)"
    unfolding L' by (simp add: toggleLanguage_def Let_def)
  show ?thesis
    unfolding unfold run
    by (cases r) (simp_all add: setToggleText_def Let_def)
qed

lemma toggleLanguage_as_render:
  assumes net: "net (dataFileOf L') = Inr resp" "ok resp" "json resp = Inr d'"
    and L': "L' = (if currentLang s = ''cn'' then ''en'' else ''cn'')"
  shows "content (toggleLanguage rt net s) =
           content (snd (renderAll rt (s\<lparr>appData := d', currentLang := L'\<rparr>)))
       \<and> appData (toggleLanguage rt net s) = d'
       \<and> currentLang (toggleLanguage rt net s) = L'
       \<and> doc (toggleLanguage rt net s) = doc s
       \<and> (fst (renderAll rt (s\<lparr>appData := d', currentLang := L'\<rparr>)) = None \<and> hasLangText (doc s)
            \<longrightarrow> alerts (toggleLanguage rt net s) = alerts s)"
proof -
  let ?s' = "s\<lparr>appData := d', currentLang := L'\<rparr>"
  from renderAll_performs [of ?s' rt] obtain r m ts
    where p: "performs d' L' (doc s) (renderAll rt) r m ts"
    by auto
  then have "renderAll rt ?s' = (r, ?s'\<lparr>content := overwrite (content ?s') m,
                                       timers := timers ?s' @ ts\<rparr>)"
    by (simp add: performs_def)
  then have "content (snd (renderAll rt ?s')) = overwrite (content s) m"
    and "fst (renderAll rt ?s') = r"
    by simp_all
  moreover note toggleLanguage_loaded [of net L' resp d' s rt r m ts]
  ultimately show ?thesis
    using net L' p by simp
qed

lemma navTargets_mono:
  assumes "\<forall>link\<in>set (navLinks pg). navLabelled rt d' link \<longrightarrow> navLabelled rt d link"
  shows "navTargets rt d' pg \<subseteq> navTargets rt d pg"
  using assms by (auto simp: navTargets_def)

lemma renderAll_nav_slot:
  assumes "getProp rt (appData s) ''nav'' = Inr (JObj kvs)"
    and "\<forall>j<length (navLinks (doc s)).
            truthy (navLabel rt kvs (navKey (navLinks (doc s) ! j))) \<longrightarrow>
            (\<exists>t. toString (navLabel rt kvs (navKey (navLinks (doc s) ! j))) = Inr t)"
  shows "content (snd (renderAll rt s)) (NavLink i, TextContent) =
           navContent rt kvs (doc s) (length (navLinks (doc s))) (content s) (NavLink i, TextContent)"
proof -
  let ?sN = "s\<lparr>content := navContent rt kvs (doc s) (length (navLinks (doc s))) (content s)\<rparr>"
  let ?rest = "seq [renderHero rt, renderAbout rt, renderSkills rt, renderProjects rt, renderEducation rt,
           renderContact rt, renderFooter rt]"
  from footprint_renderRest [of "appData s" "currentLang s" "doc s" rt] obtain r m ts
    where p: "performs (appData s) (currentLang s) (doc s) ?rest r m ts"
      and dom: "dom m \<subseteq> fixedTargets (doc s)"
    unfolding footprint_def by blast
  have "appData ?sN = appData s \<and> currentLang ?sN = currentLang s \<and> doc ?sN = doc s"
    by simp
  with p have rest: "?rest ?sN =
      (r, ?sN\<lparr>content := overwrite (content ?sN) m, timers := timers ?sN @ ts\<rparr>)"
    unfolding performs_def by blast
  have "(NavLink i, TextContent) \<notin> fixedTargets (doc s)"
    by (simp add: fixedTargets_def)
  with dom have out: "(NavLink i, TextContent) \<notin> dom m"
    by blast
  have "renderAll rt s = ?rest ?sN"
    by (simp add: renderAll_def seq.simps(2) [of "renderNav rt"] renderNav_object [OF assms])
  then show ?thesis
    by (simp add: rest overwrite_outside [OF out])
qed

lemma renderAll_statics:
  "appData (snd (renderAll rt s)) = appData s \<and> currentLang (snd (renderAll rt s)) = currentLang s
   \<and> doc (snd (renderAll rt s)) = doc s \<and> alerts (snd (renderAll rt s)) = alerts s"
proof -
  from renderAll_performs [of s rt] obtain r m ts
    where "performs (appData s) (currentLang s) (doc s) (renderAll rt) r m ts"
    by blast
  then have "renderAll rt s = (r, s\<lparr>content := overwrite (content s) m, timers := timers s @ ts\<rparr>)"
    by (simp add: performs_def)
  then show ?thesis by simp
qed

lemma renderAll_after_nav:
  assumes "getProp rt (appData s) ''nav'' = Inr (JObj kvs)"
    and "\<forall>j<length (navLinks (doc s)).
            truthy (navLabel rt kvs (navKey (navLinks (doc s) ! j))) \<longrightarrow>
            (\<exists>t. toString (navLabel rt kvs (navKey (navLinks (doc s) ! j))) = Inr t)"
  shows "renderAll rt s =
     seq [renderHero rt, renderAbout rt, renderSkills rt, renderProjects rt, renderEducation rt,
          renderContact rt, renderFooter rt]
       (s\<lparr>content := navContent rt kvs (doc s) (length (navLinks (doc s))) (content s)\<rparr>)"
  by (simp add: renderAll_def seq.simps(2) [of "renderNav rt"] renderNav_object [OF assms])

lemma objectPrototype_native:
  "map_of objectPrototype k = Some w \<Longrightarrow> \<exists>t. w = JNative t"
  by (auto simp: objectPrototype_def split: if_splits)

lemma demo_conv:
  assumes "\<forall>v\<in>snd ` set kvs. \<exists>t. v = JStr t"
  shows "\<forall>j<length (navLinks pg).
           truthy (navLabel demoRuntime kvs (navKey (navLinks pg ! j))) \<longrightarrow>
           (\<exists>t. toString (navLabel demoRuntime kvs (navKey (navLinks pg ! j))) = Inr t)"
proof -
  have "\<exists>t. toString (navLabel demoRuntime kvs k) = Inr t" for k
  proof (cases "map_of kvs k")
    case (Some v)
    then have "v \<in> snd ` set kvs"
      by (force dest: map_of_SomeD)
    with assms obtain t where "v = JStr t"
      by blast
    with Some show ?thesis
      by (simp add: navLabel_def)
  next
    case None
    show ?thesis
    proof (cases "map_of objectPrototype k")
      case None
      with \<open>map_of kvs k = None\<close> show ?thesis
        by (simp add: navLabel_def runtimeMember_def demoRuntime_def)
    next
      case (Some w)
      with objectPrototype_native [of k w] obtain t where "w = JNative t"
        by blast
      with Some \<open>map_of kvs k = None\<close> show ?thesis
        by (simp add: navLabel_def runtimeMember_def demoRuntime_def)
    qed
  qed
  then show ?thesis
    by blast
qed

lemma demo_rest_ok:
  assumes "appData s = demoData nav" and "doc s = demoPage"
  shows "fst (seq [renderHero demoRuntime, renderAbout demoRuntime, renderSkills demoRuntime,
           renderProjects demoRuntime, renderEducation demoRuntime, renderContact demoRuntime,
           renderFooter demoRuntime] s) = None"
  using assms
  by (simp add: seq.simps renderHero_def renderAbout_def renderSkills_def renderProjects_def
      renderEducation_def renderContact_def renderFooter_def readGlobals_def evalThen_def
      setTextContent_def setAttr_def setInnerHTML_def setProp_def setTimeout_def
      demoData_def demoProfile_def demoPage_def demoProjectBare_def bindE_Inr
      mapJoin_def tagSpan_def template_Cons template_Nil lit_def sub_def textOf_def
      projectCard_def responsibilitiesBlock_def achievementsBlock_def
      otherHTML_def otherItem_def otherLabels_def stringReplace_def
      runtimeMember_def demoRuntime_def objectPrototype_def)

lemma demo_renderAll_ok:
  assumes "appData s = demoData (JObj kvs)" and "doc s = demoPage"
    and "\<forall>v\<in>snd ` set kvs. \<exists>t. v = JStr t"
  shows "fst (renderAll demoRuntime s) = None"
proof -
  have "getProp demoRuntime (appData s) ''nav'' = Inr (JObj kvs)"
    by (simp add: assms(1) demoData_def)
  from renderAll_after_nav [OF this demo_conv [OF assms(3)]] show ?thesis
    by (simp add: demo_rest_ok [where nav = "JObj kvs"] assms(1,2))
qed

lemma demo_nav_slot:
  assumes "getProp demoRuntime (appData s) ''nav'' = Inr (JObj kvs)"
    and "\<forall>v\<in>snd ` set kvs. \<exists>t. v = JStr t"
  shows "content (snd (renderAll demoRuntime s)) (NavLink i, TextContent) =
           navContent demoRuntime kvs (doc s) (length (navLinks (doc s))) (content s)
             (NavLink i, TextContent)"
  by (rule renderAll_nav_slot [OF assms(1) demo_conv [OF assms(2)]])

lemma demo_loaded:
  "loadLanguage demoNet ''cn'' demoState =
     (None, demoState\<lparr>appData := demoDataCn, currentLang := ''cn'', docLang := ''zh-CN''\<rparr>)"
  "loadLanguage demoNet ''en'' demoState =
     (None, demoState\<lparr>appData := demoDataEn, currentLang := ''en'', docLang := ''en''\<rparr>)"
  by (simp_all add: loadLanguage_cases demoNet_def dataFileOf_def)

lemma demo_net:
  "demoNet (dataFileOf ''cn'') = Inr \<lparr>ok = True, json = Inr demoDataCn\<rparr>"
  "demoNet (dataFileOf ''en'') = Inr \<lparr>ok = True, json = Inr demoDataEn\<rparr>"
  by (simp_all add: demoNet_def dataFileOf_def)

lemma demoRendered_facts:
  "appData (demoRendered ''cn'') = demoDataCn" "currentLang (demoRendered ''cn'') = ''cn''"
  "appData (demoRendered ''en'') = demoDataEn" "currentLang (demoRendered ''en'') = ''en''"
  "doc (demoRendered L) = demoPage" "alerts (demoRendered L) = []"
proof -
  have d: "doc (snd (loadLanguage demoNet L demoState)) = demoPage"
    and a: "alerts (snd (loadLanguage demoNet L demoState)) = []"
    by (simp_all add: loadLanguage_cases demoState_def split: sum.splits)
  show "appData (demoRendered ''cn'') = demoDataCn" "currentLang (demoRendered ''cn'') = ''cn''"
    "appData (demoRendered ''en'') = demoDataEn" "currentLang (demoRendered ''en'') = ''en''"
    by (simp_all add: demoRendered_def renderAll_statics demo_loaded)
  show "doc (demoRendered L) = demoPage" "alerts (demoRendered L) = []"
    by (simp_all add: demoRendered_def renderAll_statics d a)
qed

lemma demo_nav:
  "getProp demoRuntime demoDataCn ''nav'' = Inr (JObj [(''home'', JStr ''Start'')])"
  "getProp demoRuntime demoDataEn ''nav'' = Inr (JObj [(''home'', JStr ''Home''), (''about'', JStr ''About'')])"
  by (simp_all add: demoDataCn_def demoDataEn_def demoData_def)

lemma demo_about_slot:
  "navContent demoRuntime [(''home'', JStr ''Start'')] demoPage (length (navLinks demoPage)) c
     (NavLink (Suc 0), TextContent) = c (NavLink (Suc 0), TextContent)"
  "navContent demoRuntime [(''home'', JStr ''Home''), (''about'', JStr ''About'')] demoPage
     (length (navLinks demoPage)) c (NavLink (Suc 0), TextContent) = ''About''"
  by (simp_all add: navContent_def navLabel_def runtimeMember_def demoRuntime_def
      objectPrototype_def demoPage_def navKey_def)

text \<open>
  Claim C5, as stated: with both fetches succeeding and serving the same data each time,
  toggling twice restores all rendered content. The counterexample starts from the page
  as rendered at start-up in \<^verbatim>\<open>cn\<close>, whose data set has no label for the second link's key
  \<^verbatim>\<open>about\<close>, and toggles to \<^verbatim>\<open>en\<close>, whose data set has one, and back. Both toggles complete
  without a notice; the second link keeps the English label.
\<close>

theorem toggle_round_trip_counterexample:
  "fst (loadLanguage demoNet ''cn'' demoState) = None
   \<and> fst (renderAll demoRuntime (snd (loadLanguage demoNet ''cn'' demoState))) = None
   \<and> alerts (toggleLanguage demoRuntime demoNet (toggleLanguage demoRuntime demoNet (demoRendered ''cn''))) = []
   \<and> currentLang (toggleLanguage demoRuntime demoNet (toggleLanguage demoRuntime demoNet (demoRendered ''cn''))) = ''cn''
   \<and> appData (toggleLanguage demoRuntime demoNet (toggleLanguage demoRuntime demoNet (demoRendered ''cn''))) = demoDataCn
   \<and> content (demoRendered ''cn'') (NavLink 1, TextContent) = []
   \<and> content (toggleLanguage demoRuntime demoNet (toggleLanguage demoRuntime demoNet (demoRendered ''cn'')))
       (NavLink 1, TextContent) = ''About''"
proof -
  let ?R = "demoRendered ''cn''"
  let ?T1 = "toggleLanguage demoRuntime demoNet ?R"
  let ?T2 = "toggleLanguage demoRuntime demoNet ?T1"
  let ?s0 = "demoState\<lparr>appData := demoDataCn, currentLang := ''cn'', docLang := ''zh-CN''\<rparr>"
  have ok0: "fst (renderAll demoRuntime ?s0) = None"
    by (rule demo_renderAll_ok [where kvs = "[(''home'', JStr ''Start'')]"])
       (simp_all add: demoDataCn_def demoState_def)
  have R: "content ?R (NavLink 1, TextContent) = []"
    unfolding demoRendered_def demo_loaded snd_conv
    by (subst demo_nav_slot [where kvs = "[(''home'', JStr ''Start'')]"])
       (simp_all add: demo_nav demoState_def demo_about_slot)
  let ?R' = "?R\<lparr>appData := demoDataEn, currentLang := ''en''\<rparr>"
  have ok1: "fst (renderAll demoRuntime ?R') = None"
    by (rule demo_renderAll_ok
          [where kvs = "[(''home'', JStr ''Home''), (''about'', JStr ''About'')]"])
       (simp_all add: demoDataEn_def demoRendered_facts)
  have lt: "hasLangText demoPage"
    by (simp add: demoPage_def)
  have T1: "content ?T1 = content (snd (renderAll demoRuntime ?R'))" "appData ?T1 = demoDataEn"
    "currentLang ?T1 = ''en''" "doc ?T1 = demoPage" "alerts ?T1 = []"
    using toggleLanguage_as_render [of demoNet "''en''" _ demoDataEn ?R demoRuntime, OF demo_net(2)] ok1 lt
    by (simp_all add: demoRendered_facts)
  have T1slot: "content ?T1 (NavLink 1, TextContent) = ''About''"
    using demo_nav_slot
      [of ?R' "[(''home'', JStr ''Home''), (''about'', JStr ''About'')]" 1]
    by (simp add: T1(1) demo_nav demoRendered_facts demo_about_slot)
  let ?T1' = "?T1\<lparr>appData := demoDataCn, currentLang := ''cn''\<rparr>"
  have ok2: "fst (renderAll demoRuntime ?T1') = None"
    by (rule demo_renderAll_ok [where kvs = "[(''home'', JStr ''Start'')]"])
       (simp_all add: demoDataCn_def T1)
  have T2: "content ?T2 = content (snd (renderAll demoRuntime ?T1'))" "appData ?T2 = demoDataCn"
    "currentLang ?T2 = ''cn''" "alerts ?T2 = []"
    using toggleLanguage_as_render [of demoNet "''cn''" _ demoDataCn ?T1 demoRuntime, OF demo_net(1)] ok2 lt
    by (simp_all add: T1)
  have T2slot: "content ?T2 (NavLink 1, TextContent) = ''About''"
    using demo_nav_slot [of ?T1' "[(''home'', JStr ''Start'')]" 1] T1slot
    by (simp add: T2(1) demo_nav T1(2-) demo_about_slot)
  show ?thesis
    using ok0 R T2 T2slot by (simp add: demo_loaded)
qed

text \<open>
  Claim C5, amended. Let \<open>L\<close> be one of the two locale codes and let the page be in the
  state \<open>s\<close> a completed render pass over \<open>L\<close>'s data set \<open>d\<close> left it in. If the fetch of the
  other locale succeeds with a data set \<open>d'\<close>, the fetch of \<open>L\<close> then succeeds with \<open>d\<close>
  again, and every navigation link that \<open>d'\<close> labels is also labelled by \<open>d\<close> (for each link,
  if \<^verbatim>\<open>nav[key]\<close> read from \<open>d'\<close> is truthy then so is \<^verbatim>\<open>nav[key]\<close> read from \<open>d\<close>, where the read
  finds an own member of \<^verbatim>\<open>nav\<close> or, failing that, the member the runtime finds for it, such
  as an inherited one), then toggling twice brings every written place of the document
  back to its content in \<open>s\<close>, with \<open>L\<close> and \<open>d\<close> active again.
\<close>

theorem toggle_round_trip:
  assumes L: "L = ''cn'' \<or> L = ''en''"
    and s1: "appData s1 = d" "currentLang s1 = L"
    and rendered: "renderAll rt s1 = (None, s)"
    and there: "net1 (dataFileOf (if L = ''cn'' then ''en'' else ''cn'')) = Inr resp1"
      "ok resp1" "json resp1 = Inr d'"
    and again: "net2 (dataFileOf L) = Inr resp2" "ok resp2" "json resp2 = Inr d"
    and labels: "\<forall>link\<in>set (navLinks (doc s)). navLabelled rt d' link \<longrightarrow> navLabelled rt d link"
  shows "content (toggleLanguage rt net2 (toggleLanguage rt net1 s)) = content s
       \<and> currentLang (toggleLanguage rt net2 (toggleLanguage rt net1 s)) = L
       \<and> appData (toggleLanguage rt net2 (toggleLanguage rt net1 s)) = d"
proof -
  let ?L' = "if L = ''cn'' then ''en'' else ''cn''"
  let ?s' = "toggleLanguage rt net1 s"
  from renderAll_performs [of s1 rt] s1 obtain r0 m0 ts0
    where p0: "performs d L (doc s1) (renderAll rt) r0 m0 ts0"
      and dom0: "r0 = None \<longrightarrow> dom m0 = navTargets rt d (doc s1) \<union> fixedTargets (doc s1)"
    by auto
  from p0 s1 have "renderAll rt s1 =
      (r0, s1\<lparr>content := overwrite (content s1) m0, timers := timers s1 @ ts0\<rparr>)"
    by (simp add: performs_def)
  with rendered have r0: "r0 = None"
    and s: "s = s1\<lparr>content := overwrite (content s1) m0, timers := timers s1 @ ts0\<rparr>"
    by simp_all
  from s s1 have ss: "appData s = d" "currentLang s = L" "doc s = doc s1"
    "content s = overwrite (content s1) m0"
    by simp_all
  from renderAll_performs [of "s\<lparr>appData := d', currentLang := ?L'\<rparr>" rt] obtain r1 m1 ts1
    where p1: "performs d' ?L' (doc s) (renderAll rt) r1 m1 ts1"
      and dom1: "dom m1 \<subseteq> navTargets rt d' (doc s) \<union> fixedTargets (doc s)"
    by auto
  have L1: "?L' = (if currentLang s = ''cn'' then ''en'' else ''cn'')"
    by (simp add: ss)
  note t1 = toggleLanguage_loaded [of net1 ?L' resp1 d' s rt r1 m1 ts1]
  have s': "content ?s' = overwrite (content s) m1" "appData ?s' = d'"
    "currentLang ?s' = ?L'" "doc ?s' = doc s"
    using t1 there L1 p1 by simp_all
  have L2: "L = (if currentLang ?s' = ''cn'' then ''en'' else ''cn'')"
    using L by (auto simp: s'(3))
  have p2: "performs d L (doc ?s') (renderAll rt) None m0 ts0"
    using p0 r0 by (simp add: s'(4) ss(3))
  note t2 = toggleLanguage_loaded [of net2 L resp2 d ?s' rt None m0 ts0]
  have s'': "content (toggleLanguage rt net2 ?s') = overwrite (content ?s') m0"
    "appData (toggleLanguage rt net2 ?s') = d" "currentLang (toggleLanguage rt net2 ?s') = L"
    using t2 again L2 p2 by simp_all
  have "navTargets rt d' (doc s) \<subseteq> navTargets rt d (doc s)"
    using labels by (rule navTargets_mono)
  with dom1 dom0 r0 have "dom m1 \<subseteq> dom m0"
    by (auto simp: ss(3))
  then have "overwrite (overwrite (overwrite (content s1) m0) m1) m0 = overwrite (content s1) m0"
    by (rule overwrite_absorb)
  then have "content (toggleLanguage rt net2 ?s') = content s"
    by (simp add: s''(1) s'(1) ss(4))
  with s''(2,3) show ?thesis
    by simp
qed

theorem toggle_round_trip_witness:
  "fst (renderAll demoRuntime (snd (loadLanguage demoNet ''en'' demoState))) = None
   \<and> content (toggleLanguage demoRuntime demoNet (toggleLanguage demoRuntime demoNet (demoRendered ''en'')))
       = content (demoRendered ''en'')
   \<and> currentLang (toggleLanguage demoRuntime demoNet (toggleLanguage demoRuntime demoNet (demoRendered ''en''))) = ''en''
   \<and> appData (toggleLanguage demoRuntime demoNet (toggleLanguage demoRuntime demoNet (demoRendered ''en''))) = demoDataEn"
proof -
  let ?s1 = "snd (loadLanguage demoNet ''en'' demoState)"
  have dd: "doc demoState = demoPage"
    by (simp add: demoState_def)
  have s1: "appData ?s1 = demoDataEn" "currentLang ?s1 = ''en''" "doc ?s1 = demoPage"
    by (simp_all add: demo_loaded dd)
  have ok: "fst (renderAll demoRuntime ?s1) = None"
    by (rule demo_renderAll_ok
          [where kvs = "[(''home'', JStr ''Home''), (''about'', JStr ''About'')]"])
       (simp_all add: s1 demoDataEn_def)
  then have rendered: "renderAll demoRuntime ?s1 = (None, demoRendered ''en'')"
    by (simp add: demoRendered_def prod_eq_iff)
  have L: "''en'' = ''cn'' \<or> ''en'' = ''en''"
    by simp
  have there: "demoNet (dataFileOf (if ''en'' = ''cn'' then ''en'' else ''cn'')) =
      Inr \<lparr>ok = True, json = Inr demoDataCn\<rparr>"
    by (simp add: demo_net)
  have labels: "\<forall>link\<in>set (navLinks (doc (demoRendered ''en''))).
      navLabelled demoRuntime demoDataCn link \<longrightarrow> navLabelled demoRuntime demoDataEn link"
    by (simp add: demoRendered_facts demoPage_def navLabelled_def demo_nav navKey_def
        runtimeMember_def demoRuntime_def objectPrototype_def)
  note th = toggle_round_trip [of "''en''" ?s1 demoDataEn demoRuntime "demoRendered ''en''" demoNet
      "\<lparr>ok = True, json = Inr demoDataCn\<rparr>" demoDataCn demoNet
      "\<lparr>ok = True, json = Inr demoDataEn\<rparr>"]
  show ?thesis
    using ok th L s1 rendered there demo_net(2) labels
    by simp
qed

end
